theory Spec2Isabelle
  imports Main "HOL-Library.Sublist"
begin

section \<open>The header generator \<^verbatim>\<open>utils/header_files_gen/RMA_X.py\<close>\<close>

text \<open>
  The generator builds one C++ header as a Python string and writes it to a file.
  Python strings are modelled as \<^typ>\<open>string\<close>; every character of the source's literals is
  ASCII.  An f-string is the concatenation of its literal pieces and its arguments, in order.
\<close>

subsection \<open>The type table\<close>

text \<open>The module-level list \<^verbatim>\<open>types\<close>: pairs of a C type spelling and its short name.\<close>

definition types :: "(string \<times> string) list" where
  "types =
   [(''float'', ''float''),
    (''double'', ''double''),
    (''char'', ''char''),
    (''signed char'', ''schar''),
    (''short'', ''short''),
    (''int'', ''int''),
    (''long'', ''long''),
    (''long long'', ''longlong''),
    (''unsigned char'', ''uchar''),
    (''unsigned short'', ''ushort''),
    (''unsigned int'', ''uint''),
    (''unsigned long'', ''ulong''),
    (''unsigned long long'', ''ulonglong'')]"

subsection \<open>The four declaration templates\<close>

text \<open>
  Each template is a parenthesised sequence of five adjacent f-strings; \<^verbatim>\<open>\n\<close> in the
  source is the newline character.
\<close>

definition put_api_x :: "string \<Rightarrow> string \<Rightarrow> string \<Rightarrow> string" where
  "put_api_x GRAN T TNAME =
     ''__device__ ATTR_NO_INLINE void rocshmem_ctx_'' @ TNAME @ ''_put_'' @ GRAN @ ''(\<newline>'' @
     ''    rocshmem_ctx_t ctx, '' @ T @ '' *dest, const '' @ T @ '' *source,\<newline>'' @
     ''    size_t nelems, int pe);\<newline>'' @
     ''__device__ ATTR_NO_INLINE void rocshmem_'' @ TNAME @ ''_put_'' @ GRAN @ ''(\<newline>'' @
     ''    '' @ T @ '' *dest, const '' @ T @ '' *source, size_t nelems, int pe);\<newline>\<newline>''"

definition get_api_x :: "string \<Rightarrow> string \<Rightarrow> string \<Rightarrow> string" where
  "get_api_x GRAN T TNAME =
     ''__device__ ATTR_NO_INLINE void rocshmem_ctx_'' @ TNAME @ ''_get_'' @ GRAN @ ''(\<newline>'' @
     ''    rocshmem_ctx_t ctx, '' @ T @ '' *dest, const '' @ T @ '' *source,\<newline>'' @
     ''    size_t nelems, int pe);\<newline>'' @
     ''__device__ ATTR_NO_INLINE void rocshmem_'' @ TNAME @ ''_get_'' @ GRAN @ ''(\<newline>'' @
     ''    '' @ T @ '' *dest, const '' @ T @ '' *source, size_t nelems, int pe);\<newline>\<newline>''"

definition put_nbi_api_x :: "string \<Rightarrow> string \<Rightarrow> string \<Rightarrow> string" where
  "put_nbi_api_x GRAN T TNAME =
     ''__device__ ATTR_NO_INLINE void rocshmem_ctx_'' @ TNAME @ ''_put_nbi_'' @ GRAN @ ''(\<newline>'' @
     ''    rocshmem_ctx_t ctx, '' @ T @ '' *dest, const '' @ T @ '' *source,\<newline>'' @
     ''    size_t nelems, int pe);\<newline>'' @
     ''__device__ ATTR_NO_INLINE void rocshmem_'' @ TNAME @ ''_put_nbi_'' @ GRAN @ ''(\<newline>'' @
     ''    '' @ T @ '' *dest, const '' @ T @ '' *source, size_t nelems, int pe);\<newline>\<newline>''"

definition get_nbi_api_x :: "string \<Rightarrow> string \<Rightarrow> string \<Rightarrow> string" where
  "get_nbi_api_x GRAN T TNAME =
     ''__device__ ATTR_NO_INLINE void rocshmem_ctx_'' @ TNAME @ ''_get_nbi_'' @ GRAN @ ''(\<newline>'' @
     ''    rocshmem_ctx_t ctx, '' @ T @ '' *dest, const '' @ T @ '' *source,\<newline>'' @
     ''    size_t nelems, int pe);\<newline>'' @
     ''__device__ ATTR_NO_INLINE void rocshmem_'' @ TNAME @ ''_get_nbi_'' @ GRAN @ ''(\<newline>'' @
     ''    '' @ T @ '' *dest, const '' @ T @ '' *source, size_t nelems, int pe);\<newline>\<newline>''"

subsection \<open>The documentation literals\<close>

text \<open>
  The eight triple-quoted literals of the \<^verbatim>\<open>generate_*_api_x\<close> functions.  Each is
  given as the list of its source lines, every line with its newline, and is the
  concatenation of that list.  Python keeps the unrecognised escape \<^verbatim>\<open>\p\<close> as a
  backslash followed by \<^verbatim>\<open>p\<close>; the backslash is written \<open>backslash\<close> here.
\<close>

definition backslash :: string where
  "backslash = [CHR 0x5C]"

definition put_doc_wave_lines :: "string list" where
  "put_doc_wave_lines =
   [''\<newline>'',
    ''/**\<newline>'',
    '' * @brief Writes contiguous data of '' @ backslash @ ''p nelems elements from '' @ backslash @ ''p source on the\<newline>'',
    '' * calling PE to '' @ backslash @ ''p dest at '' @ backslash @ ''p pe. The caller will block until the operation\<newline>'',
    '' * completes locally (it is safe to reuse '' @ backslash @ ''p source). The caller must\<newline>'',
    '' * call into rocshmem_quiet() if remote completion is required.\<newline>'',
    '' *\<newline>'',
    '' * This function can be called from divergent control paths at per-wave\<newline>'',
    '' * granularity. However, all threads in a wave must collectively participate\<newline>'',
    '' * in the call using the same arguments\<newline>'',
    '' *\<newline>'',
    '' * @param[in] ctx    Context with which to perform this operation.\<newline>'',
    '' * @param[in] dest   Destination address. Must be an address on the symmetric\<newline>'',
    '' *                   heap.\<newline>'',
    '' * @param[in] source Source address. Must be an address on the symmetric heap.\<newline>'',
    '' * @param[in] nelems Size of the transfer in number of elements.\<newline>'',
    '' * @param[in] pe     PE of the remote process.\<newline>'',
    '' *\<newline>'',
    '' * @return void.\<newline>'',
    '' */\<newline>'']"

definition put_doc_wave :: string where
  "put_doc_wave = concat put_doc_wave_lines"

definition put_doc_wg_lines :: "string list" where
  "put_doc_wg_lines =
   [''\<newline>'',
    ''/**\<newline>'',
    '' * @brief Writes contiguous data of '' @ backslash @ ''p nelems elements from '' @ backslash @ ''p source on the\<newline>'',
    '' * calling PE to '' @ backslash @ ''p dest at '' @ backslash @ ''p pe. The caller will block until the operation\<newline>'',
    '' * completes locally (it is safe to reuse '' @ backslash @ ''p source). The caller must\<newline>'',
    '' * call into rocshmem_quiet() if remote completion is required.\<newline>'',
    '' *\<newline>'',
    '' * This function can be called from divergent control paths at per-workgroup\<newline>'',
    '' * (WG) granularity. However, All threads in a WG must collectively participate\<newline>'',
    '' * in the call using the same arguments.\<newline>'',
    '' *\<newline>'',
    '' * @param[in] ctx    Context with which to perform this operation.\<newline>'',
    '' * @param[in] dest   Destination address. Must be an address on the symmetric\<newline>'',
    '' *                   heap.\<newline>'',
    '' * @param[in] source Source address. Must be an address on the symmetric heap.\<newline>'',
    '' * @param[in] nelems Size of the transfer in number of elements.\<newline>'',
    '' * @param[in] pe     PE of the remote process.\<newline>'',
    '' *\<newline>'',
    '' * @return void.\<newline>'',
    '' */\<newline>'']"

definition put_doc_wg :: string where
  "put_doc_wg = concat put_doc_wg_lines"

definition get_doc_wave_lines :: "string list" where
  "get_doc_wave_lines =
   [''\<newline>'',
    ''/**\<newline>'',
    '' * @brief Reads contiguous data of '' @ backslash @ ''p nelems elements from '' @ backslash @ ''p source on '' @ backslash @ ''p pe\<newline>'',
    '' * to '' @ backslash @ ''p dest on the calling PE. The calling work-group will block until the\<newline>'',
    '' * operation completes (data has been placed in '' @ backslash @ ''p dest).\<newline>'',
    '' *\<newline>'',
    '' * This function can be called from divergent control paths at per-wave\<newline>'',
    '' * granularity. However,  all threads in the wave must participate in the\<newline>'',
    '' * call using the same parameters\<newline>'',
    '' *\<newline>'',
    '' * @param[in] ctx     Context with which to perform this operation.\<newline>'',
    '' * @param[in] dest    Destination address. Must be an address on the symmetric\<newline>'',
    '' *                    heap.\<newline>'',
    '' * @param[in] source  Source address. Must be an address on the symmetric heap.\<newline>'',
    '' * @param[in] nelems  Size of the transfer in bytes.\<newline>'',
    '' * @param[in] pe      PE of the remote process.\<newline>'',
    '' *\<newline>'',
    '' * @return void.\<newline>'',
    '' */\<newline>'']"

definition get_doc_wave :: string where
  "get_doc_wave = concat get_doc_wave_lines"

definition get_doc_wg_lines :: "string list" where
  "get_doc_wg_lines =
   [''\<newline>'',
    ''/**\<newline>'',
    '' * @brief Reads contiguous data of '' @ backslash @ ''p nelems elements from '' @ backslash @ ''p source on '' @ backslash @ ''p pe\<newline>'',
    '' * to '' @ backslash @ ''p dest on the calling PE. The calling work-group will block until the\<newline>'',
    '' * operation completes (data has been placed in '' @ backslash @ ''p dest).\<newline>'',
    '' *\<newline>'',
    '' * This function can be called from divergent control paths at per-workgroup\<newline>'',
    '' * granularity. However,  all threads in the workgroup must participate in\<newline>'',
    '' * the call using the same parameters\<newline>'',
    '' *\<newline>'',
    '' * @param[in] ctx     Context with which to perform this operation.\<newline>'',
    '' * @param[in] dest    Destination address. Must be an address on the symmetric\<newline>'',
    '' *                    heap.\<newline>'',
    '' * @param[in] source  Source address. Must be an address on the symmetric heap.\<newline>'',
    '' * @param[in] nelems  Size of the transfer in bytes.\<newline>'',
    '' * @param[in] pe      PE of the remote process.\<newline>'',
    '' *\<newline>'',
    '' * @return void.\<newline>'',
    '' */\<newline>'']"

definition get_doc_wg :: string where
  "get_doc_wg = concat get_doc_wg_lines"

definition put_nbi_doc_wave_lines :: "string list" where
  "put_nbi_doc_wave_lines =
   [''\<newline>'',
    ''/**\<newline>'',
    '' * @brief Writes contiguous data of '' @ backslash @ ''p nelems elements from '' @ backslash @ ''p source on the\<newline>'',
    '' * calling PE to '' @ backslash @ ''p dest on '' @ backslash @ ''p pe. The operation is not blocking. The caller\<newline>'',
    '' * will return as soon as the request is posted. The caller must call\<newline>'',
    '' * rocshmem_quiet() on the same context if completion notification is\<newline>'',
    '' * required.\<newline>'',
    '' *\<newline>'',
    '' * This function can be called from divergent control paths at per-wave\<newline>'',
    '' * granularity. However, all threads in the wave must call in with the same\<newline>'',
    '' * arguments.\<newline>'',
    '' *\<newline>'',
    '' * @param[in] ctx     Context with which to perform this operation.\<newline>'',
    '' * @param[in] dest    Destination address. Must be an address on the symmetric\<newline>'',
    ''                      heap.\<newline>'',
    '' * @param[in] source  Source address. Must be an address on the symmetric heap.\<newline>'',
    '' * @param[in] nelems  Size of the transfer in bytes.\<newline>'',
    '' * @param[in] pe      PE of the remote process.\<newline>'',
    '' *\<newline>'',
    '' * @return void.\<newline>'',
    '' */\<newline>'']"

definition put_nbi_doc_wave :: string where
  "put_nbi_doc_wave = concat put_nbi_doc_wave_lines"

definition put_nbi_doc_wg_lines :: "string list" where
  "put_nbi_doc_wg_lines =
   [''\<newline>'',
    ''/**\<newline>'',
    '' * @brief Writes contiguous data of '' @ backslash @ ''p nelems elements from '' @ backslash @ ''p source on the\<newline>'',
    '' * calling PE to '' @ backslash @ ''p dest on '' @ backslash @ ''p pe. The operation is not blocking. The caller\<newline>'',
    '' * will return as soon as the request is posted. The caller must call\<newline>'',
    '' * rocshmem_quiet() on the same context if completion notification is\<newline>'',
    '' * required.\<newline>'',
    '' *\<newline>'',
    '' * This function can be called from divergent control paths at per-workgroup\<newline>'',
    '' * granularity. However, all threads in the WG must call in with the sameo\<newline>'',
    '' * arguments.\<newline>'',
    '' *\<newline>'',
    '' * @param[in] ctx     Context with which to perform this operation.\<newline>'',
    '' * @param[in] dest    Destination address. Must be an address on the symmetric\<newline>'',
    ''                      heap.\<newline>'',
    '' * @param[in] source  Source address. Must be an address on the symmetric heap.\<newline>'',
    '' * @param[in] nelems  Size of the transfer in bytes.\<newline>'',
    '' * @param[in] pe      PE of the remote process.\<newline>'',
    '' *\<newline>'',
    '' * @return void.\<newline>'',
    '' */\<newline>'']"

definition put_nbi_doc_wg :: string where
  "put_nbi_doc_wg = concat put_nbi_doc_wg_lines"

definition get_nbi_doc_wave_lines :: "string list" where
  "get_nbi_doc_wave_lines =
   [''\<newline>'',
    ''/**\<newline>'',
    '' * @brief Reads contiguous data of '' @ backslash @ ''p nelems elements from '' @ backslash @ ''p source on '' @ backslash @ ''p pe\<newline>'',
    '' * to '' @ backslash @ ''p dest on the calling PE. The operation is not blocking. The caller\<newline>'',
    '' * will return as soon as the request is posted. The caller must call\<newline>'',
    '' * rocshmem_quiet() on the same context if completion notification is\<newline>'',
    '' * required.\<newline>'',
    '' *\<newline>'',
    '' * This function can be called from divergent control paths at per-wave\<newline>'',
    '' * granularity. However, all threads in the wave must call in with the same\<newline>'',
    '' * arguments.\<newline>'',
    '' *\<newline>'',
    '' * @param[in] ctx     Context with which to perform this operation.\<newline>'',
    '' * @param[in] dest    Destination address. Must be an address on the symmetric\<newline>'',
    '' *                    heap.\<newline>'',
    '' * @param[in] source  Source address. Must be an address on the symmetric heap.\<newline>'',
    '' * @param[in] nelems  Size of the transfer in bytes.\<newline>'',
    '' * @param[in] pe      PE of the remote process.\<newline>'',
    '' *\<newline>'',
    '' * @return void.\<newline>'',
    '' */\<newline>'']"

definition get_nbi_doc_wave :: string where
  "get_nbi_doc_wave = concat get_nbi_doc_wave_lines"

definition get_nbi_doc_wg_lines :: "string list" where
  "get_nbi_doc_wg_lines =
   [''\<newline>'',
    ''/**\<newline>'',
    '' * @brief Reads contiguous data of '' @ backslash @ ''p nelems elements from '' @ backslash @ ''p source on '' @ backslash @ ''p pe\<newline>'',
    '' * to '' @ backslash @ ''p dest on the calling PE. The operation is not blocking. The caller\<newline>'',
    '' * will return as soon as the request is posted. The caller must call\<newline>'',
    '' * rocshmem_quiet() on the same context if completion notification is\<newline>'',
    '' * required.\<newline>'',
    '' *\<newline>'',
    '' * This function can be called from divergent control paths at per-workgroup\<newline>'',
    '' * granularity. However, all threads in the WG must call in with the same\<newline>'',
    '' * arguments.\<newline>'',
    '' *\<newline>'',
    '' * @param[in] ctx     Context with which to perform this operation.\<newline>'',
    '' * @param[in] dest    Destination address. Must be an address on the symmetric\<newline>'',
    '' *                    heap.\<newline>'',
    '' * @param[in] source  Source address. Must be an address on the symmetric heap.\<newline>'',
    '' * @param[in] nelems  Size of the transfer in bytes.\<newline>'',
    '' * @param[in] pe      PE of the remote process.\<newline>'',
    '' *\<newline>'',
    '' * @return void.\<newline>'',
    '' */\<newline>'']"

definition get_nbi_doc_wg :: string where
  "get_nbi_doc_wg = concat get_nbi_doc_wg_lines"


subsection \<open>The family blocks\<close>

text \<open>
  Each \<^verbatim>\<open>generate_*_api_x\<close> starts from the per-wave documentation literal, appends the
  template for every entry of \<open>types\<close> in a \<^verbatim>\<open>for\<close> loop, appends the per-workgroup
  documentation literal and loops again.  A loop
  \<^verbatim>\<open>for type_, tname_ in types: expanded_code += f(...)\<close> is a left fold over the table
  with the accumulated text as state; the loop variables are \<open>ty\<close> and \<open>tname\<close> here.
\<close>

definition generate_put_api_x :: string where
  "generate_put_api_x =
     (let expanded_code = put_doc_wave;
          expanded_code = foldl (\<lambda>expanded_code (ty, tname).
                             expanded_code @ put_api_x ''wave'' ty tname) expanded_code types;
          expanded_code = expanded_code @ put_doc_wg;
          expanded_code = foldl (\<lambda>expanded_code (ty, tname).
                             expanded_code @ put_api_x ''wg'' ty tname) expanded_code types
      in expanded_code)"

definition generate_get_api_x :: string where
  "generate_get_api_x =
     (let expanded_code = get_doc_wave;
          expanded_code = foldl (\<lambda>expanded_code (ty, tname).
                             expanded_code @ get_api_x ''wave'' ty tname) expanded_code types;
          expanded_code = expanded_code @ get_doc_wg;
          expanded_code = foldl (\<lambda>expanded_code (ty, tname).
                             expanded_code @ get_api_x ''wg'' ty tname) expanded_code types
      in expanded_code)"

definition generate_put_nbi_api_x :: string where
  "generate_put_nbi_api_x =
     (let expanded_code = put_nbi_doc_wave;
          expanded_code = foldl (\<lambda>expanded_code (ty, tname).
                             expanded_code @ put_nbi_api_x ''wave'' ty tname) expanded_code types;
          expanded_code = expanded_code @ put_nbi_doc_wg;
          expanded_code = foldl (\<lambda>expanded_code (ty, tname).
                             expanded_code @ put_nbi_api_x ''wg'' ty tname) expanded_code types
      in expanded_code)"

definition generate_get_nbi_api_x :: string where
  "generate_get_nbi_api_x =
     (let expanded_code = get_nbi_doc_wave;
          expanded_code = foldl (\<lambda>expanded_code (ty, tname).
                             expanded_code @ get_nbi_api_x ''wave'' ty tname) expanded_code types;
          expanded_code = expanded_code @ get_nbi_doc_wg;
          expanded_code = foldl (\<lambda>expanded_code (ty, tname).
                             expanded_code @ get_nbi_api_x ''wg'' ty tname) expanded_code types
      in expanded_code)"

subsection \<open>The document and its emission\<close>

text \<open>The two literals of \<^verbatim>\<open>generate_RMA_X_header\<close>.\<close>

definition header_open :: string where
  "header_open = concat
   [''\<newline>'',
    ''#ifndef LIBRARY_INCLUDE_ROCSHMEM_RMA_X_HPP\<newline>'',
    ''#define LIBRARY_INCLUDE_ROCSHMEM_RMA_X_HPP\<newline>'',
    ''\<newline>'',
    ''namespace rocshmem {\<newline>'']"

definition header_close :: string where
  "header_close = concat
   [''\<newline>'',
    ''}  // namespace rocshmem\<newline>'',
    ''\<newline>'',
    ''#endif  // LIBRARY_INCLUDE_ROCSHMEM_RMA_X_HPP\<newline>'']"

text \<open>
  The value of \<^verbatim>\<open>expanded_code\<close> when \<^verbatim>\<open>generate_RMA_X_header\<close> reaches the call of
  \<^verbatim>\<open>write_to_file\<close>.
\<close>

definition expanded_code_of :: "string \<Rightarrow> string" where
  "expanded_code_of copyright =
     (let expanded_code = copyright;
          expanded_code = expanded_code @ header_open;
          expanded_code = expanded_code @
            (generate_put_api_x @ generate_get_api_x @
             generate_put_nbi_api_x @ generate_get_nbi_api_x);
          expanded_code = expanded_code @ header_close
      in expanded_code)"

text \<open>
  \<^verbatim>\<open>os.path.join\<close> with two arguments, as \<^verbatim>\<open>posixpath\<close> defines it: an absolute second
  component replaces the first; otherwise the two are joined with one separator unless the
  first is empty or already ends with one.
\<close>

definition os_path_join :: "string \<Rightarrow> string \<Rightarrow> string" where
  "os_path_join a b =
     (if b \<noteq> [] \<and> hd b = CHR ''/'' then b
      else if a = [] \<or> last a = CHR ''/'' then a @ b
      else a @ ''/'' @ b)"

text \<open>
  The file system is explicit state.  An \<open>os_state\<close> holds the content of the files on
  disk, the open handles, most recent first, each with the text that \<^verbatim>\<open>write\<close> has accepted
  and that has not reached the disk yet, and the log of the calls made so far.  Whether a
  call fails is not decided by the generator, so it is a parameter: \<open>open_fault\<close> gives the
  error \<^verbatim>\<open>open(filename, 'w')\<close> raises for a path, if any; \<open>write_fault\<close> the error of
  \<^verbatim>\<open>file.write\<close> with the number of characters that reach the disk; \<open>close_fault\<close> the error
  of \<^verbatim>\<open>close\<close>, which flushes the pending text, with the number of characters it still
  flushes.
\<close>

datatype io_error = OSError string

datatype os_call = Open string | Write string string | Close string

record os_state =
  files :: "string \<rightharpoonup> string"
  open_files :: "(string \<times> string) list"
  calls :: "os_call list"

record os_faults =
  open_fault :: "string \<Rightarrow> io_error option"
  write_fault :: "string \<Rightarrow> string \<Rightarrow> (io_error \<times> nat) option"
  close_fault :: "string \<Rightarrow> string \<Rightarrow> (io_error \<times> nat) option"

text \<open>The pending text of the most recent handle of a path, its update and its release.\<close>

fun pending :: "string \<Rightarrow> (string \<times> string) list \<Rightarrow> string" where
  "pending filename [] = []"
| "pending filename ((p, b) # hs) = (if p = filename then b else pending filename hs)"

fun set_pending :: "string \<Rightarrow> string \<Rightarrow> (string \<times> string) list \<Rightarrow> (string \<times> string) list" where
  "set_pending filename b [] = []"
| "set_pending filename b ((p, b') # hs) =
     (if p = filename then (p, b) # hs else (p, b') # set_pending filename b hs)"

fun release :: "string \<Rightarrow> (string \<times> string) list \<Rightarrow> (string \<times> string) list" where
  "release filename [] = []"
| "release filename ((p, b) # hs) = (if p = filename then hs else (p, b) # release filename hs)"

text \<open>
  A handle opened in mode \<^verbatim>\<open>'w'\<close> starts at the beginning of an empty file and is only
  written to, so text that reaches the disk is added after what the file holds.
\<close>

definition disk_append :: "string \<Rightarrow> string \<Rightarrow> (string \<rightharpoonup> string) \<Rightarrow> (string \<rightharpoonup> string)" where
  "disk_append filename text fs =
     fs(filename \<mapsto> (case fs filename of None \<Rightarrow> [] | Some old \<Rightarrow> old) @ text)"

text \<open>Opening in mode \<^verbatim>\<open>'w'\<close> creates the file or truncates it to length zero.\<close>

definition os_open_w :: "os_faults \<Rightarrow> string \<Rightarrow> os_state \<Rightarrow> (io_error + unit) \<times> os_state" where
  "os_open_w os filename s =
     (case open_fault os filename of
        Some e \<Rightarrow> (Inl e, s\<lparr>calls := calls s @ [Open filename]\<rparr>)
      | None \<Rightarrow> (Inr (), s\<lparr>files := (files s)(filename \<mapsto> []),
                            open_files := (filename, []) # open_files s,
                            calls := calls s @ [Open filename]\<rparr>))"

text \<open>
  \<^verbatim>\<open>write\<close> adds the text to the pending text of the handle.  A \<^verbatim>\<open>write\<close> that raises has
  brought the first \<open>k\<close> pending characters to the disk and leaves nothing pending.
\<close>

definition os_write :: "os_faults \<Rightarrow> string \<Rightarrow> string \<Rightarrow> os_state \<Rightarrow> (io_error + unit) \<times> os_state" where
  "os_write os filename content s =
     (let buffer = pending filename (open_files s) @ content
      in case write_fault os filename content of
           Some (e, k) \<Rightarrow>
             (Inl e, s\<lparr>files := disk_append filename (take k buffer) (files s),
                       open_files := set_pending filename [] (open_files s),
                       calls := calls s @ [Write filename content]\<rparr>)
         | None \<Rightarrow>
             (Inr (), s\<lparr>open_files := set_pending filename buffer (open_files s),
                        calls := calls s @ [Write filename content]\<rparr>))"

text \<open>
  \<^verbatim>\<open>close\<close> flushes the pending text and releases the handle.  When the flush raises, the
  first \<open>k\<close> pending characters have reached the disk and the handle is released all the
  same.
\<close>

definition os_close :: "os_faults \<Rightarrow> string \<Rightarrow> os_state \<Rightarrow> (io_error + unit) \<times> os_state" where
  "os_close os filename s =
     (let buffer = pending filename (open_files s)
      in case close_fault os filename buffer of
           Some (e, k) \<Rightarrow>
             (Inl e, s\<lparr>files := disk_append filename (take k buffer) (files s),
                       open_files := release filename (open_files s),
                       calls := calls s @ [Close filename]\<rparr>)
         | None \<Rightarrow>
             (Inr (), s\<lparr>files := disk_append filename buffer (files s),
                        open_files := release filename (open_files s),
                        calls := calls s @ [Close filename]\<rparr>))"

text \<open>
  \<^verbatim>\<open>with open(filename, 'w') as file: file.write(content)\<close>.  An error of \<^verbatim>\<open>open\<close>
  leaves the block unentered.  Once the block is entered the handle is closed when it is
  left, by normal completion or by the error of \<^verbatim>\<open>write\<close>.  An error of that \<^verbatim>\<open>close\<close> is
  raised in place of whatever left the block; otherwise the error of \<^verbatim>\<open>write\<close>, if any, is
  raised again.
\<close>

definition write_to_file :: "os_faults \<Rightarrow> string \<Rightarrow> string \<Rightarrow> os_state \<Rightarrow> (io_error + unit) \<times> os_state" where
  "write_to_file os filename content s =
     (case os_open_w os filename s of
        (Inl e, s1) \<Rightarrow> (Inl e, s1)
      | (Inr _, s1) \<Rightarrow>
          (case os_write os filename content s1 of
             (r, s2) \<Rightarrow>
               (case os_close os filename s2 of
                  (Inl e, s3) \<Rightarrow> (Inl e, s3)
                | (Inr _, s3) \<Rightarrow> (r, s3))))"

definition generate_RMA_X_header ::
    "os_faults \<Rightarrow> string \<Rightarrow> string \<Rightarrow> os_state \<Rightarrow> (io_error + unit) \<times> os_state" where
  "generate_RMA_X_header os output_dir copyright s =
     (let expanded_code = expanded_code_of copyright;
          output_file = os_path_join output_dir ''rocshmem_RMA_X.hpp''
      in write_to_file os output_file expanded_code s)"

subsection \<open>The axes of the enumeration\<close>

text \<open>
  The source has no type for operation families or granularities: a family is one of the
  four pairs of functions above and a granularity is one of the two tags the loops pass.
  The two enumerations index them so that properties can range over them.
\<close>

datatype family = Put | Get | PutNonBlocking | GetNonBlocking

datatype granularity = PerWave | PerWorkgroup

definition families :: "family list" where
  "families = [Put, Get, PutNonBlocking, GetNonBlocking]"

definition granularities :: "granularity list" where
  "granularities = [PerWave, PerWorkgroup]"

fun granularity_tag :: "granularity \<Rightarrow> string" where
  "granularity_tag PerWave = ''wave''"
| "granularity_tag PerWorkgroup = ''wg''"

fun family_fragment :: "family \<Rightarrow> string" where
  "family_fragment Put = ''put''"
| "family_fragment Get = ''get''"
| "family_fragment PutNonBlocking = ''put_nbi''"
| "family_fragment GetNonBlocking = ''get_nbi''"

text \<open>The template function and the family block of a family.\<close>

fun declaration_template :: "family \<Rightarrow> string \<Rightarrow> string \<Rightarrow> string \<Rightarrow> string" where
  "declaration_template Put = put_api_x"
| "declaration_template Get = get_api_x"
| "declaration_template PutNonBlocking = put_nbi_api_x"
| "declaration_template GetNonBlocking = get_nbi_api_x"

fun family_block :: "family \<Rightarrow> string" where
  "family_block Put = generate_put_api_x"
| "family_block Get = generate_get_api_x"
| "family_block PutNonBlocking = generate_put_nbi_api_x"
| "family_block GetNonBlocking = generate_get_nbi_api_x"

text \<open>
  One template with the family fragment as a parameter: the text shared by the four
  template functions, with the fragment placed in the two symbol names.
\<close>

definition api_x :: "string \<Rightarrow> string \<Rightarrow> string \<Rightarrow> string \<Rightarrow> string" where
  "api_x FRAG GRAN T TNAME =
     ''__device__ ATTR_NO_INLINE void rocshmem_ctx_'' @ TNAME @ ''_'' @ FRAG @ ''_'' @ GRAN @ ''(\<newline>'' @
     ''    rocshmem_ctx_t ctx, '' @ T @ '' *dest, const '' @ T @ '' *source,\<newline>'' @
     ''    size_t nelems, int pe);\<newline>'' @
     ''__device__ ATTR_NO_INLINE void rocshmem_'' @ TNAME @ ''_'' @ FRAG @ ''_'' @ GRAN @ ''(\<newline>'' @
     ''    '' @ T @ '' *dest, const '' @ T @ '' *source, size_t nelems, int pe);\<newline>\<newline>''"


fun documentation_lines :: "family \<Rightarrow> granularity \<Rightarrow> string list" where
  "documentation_lines Put PerWave = put_doc_wave_lines"
| "documentation_lines Put PerWorkgroup = put_doc_wg_lines"
| "documentation_lines Get PerWave = get_doc_wave_lines"
| "documentation_lines Get PerWorkgroup = get_doc_wg_lines"
| "documentation_lines PutNonBlocking PerWave = put_nbi_doc_wave_lines"
| "documentation_lines PutNonBlocking PerWorkgroup = put_nbi_doc_wg_lines"
| "documentation_lines GetNonBlocking PerWave = get_nbi_doc_wave_lines"
| "documentation_lines GetNonBlocking PerWorkgroup = get_nbi_doc_wg_lines"

definition documentation :: "family \<Rightarrow> granularity \<Rightarrow> string" where
  "documentation f g = concat (documentation_lines f g)"

text \<open>
  The index of the line \<^verbatim>\<open>This function can be called from divergent control paths ...\<close>
  in the documentation literals of a family: it follows the brief paragraph, which has
  four lines for Put, three for Get and five for the non-blocking families.
\<close>

fun sentence_start :: "family \<Rightarrow> nat" where
  "sentence_start Put = 7"
| "sentence_start Get = 6"
| "sentence_start PutNonBlocking = 8"
| "sentence_start GetNonBlocking = 8"

text \<open>
  The number of lines, from that line on, in which the wording of the two literals of a
  family is not the same by design or is left open: the third line of the sentence is the
  same in both literals of the non-blocking families.
\<close>

fun sentence_length :: "family \<Rightarrow> nat" where
  "sentence_length Put = 3"
| "sentence_length Get = 3"
| "sentence_length PutNonBlocking = 2"
| "sentence_length GetNonBlocking = 2"

subsection \<open>The symbol names\<close>

text \<open>
  The names a template places after \<^verbatim>\<open>void\<close> in its two prototypes: the prefix
  \<^verbatim>\<open>rocshmem_ctx_\<close> or \<^verbatim>\<open>rocshmem_\<close>, the short name, the family fragment and the
  granularity tag, joined by underscores.
\<close>

definition ctx_symbol :: "family \<Rightarrow> granularity \<Rightarrow> string \<Rightarrow> string" where
  "ctx_symbol f g tname =
     ''rocshmem_ctx_'' @ tname @ ''_'' @ family_fragment f @ ''_'' @ granularity_tag g"

definition default_symbol :: "family \<Rightarrow> granularity \<Rightarrow> string \<Rightarrow> string" where
  "default_symbol f g tname =
     ''rocshmem_'' @ tname @ ''_'' @ family_fragment f @ ''_'' @ granularity_tag g"

fun symbol_names :: "family \<times> granularity \<times> string \<times> string \<Rightarrow> string \<times> string" where
  "symbol_names (f, g, ty, tname) = (ctx_symbol f g tname, default_symbol f g tname)"

text \<open>
  The cross product of the axes, families outermost and table entries innermost, and the
  names of all its triples in that order, the context-qualified name of a triple before its
  default-context name.
\<close>

definition triples :: "(family \<times> granularity \<times> string \<times> string) list" where
  "triples = List.product families (List.product granularities types)"

definition all_symbols :: "string list" where
  "all_symbols = concat (map (\<lambda>k. [fst (symbol_names k), snd (symbol_names k)]) triples)"

subsection \<open>Reading the generated text\<close>

text \<open>
  The generated text is read as C tokens: an identifier is a maximal run of letters,
  digits and underscores, white space separates, and every other character is a token of
  its own.
\<close>

definition is_ident_char :: "char \<Rightarrow> bool" where
  "is_ident_char c =
     (let n = (of_char c :: nat)
      in (48 \<le> n \<and> n \<le> 57) \<or> (65 \<le> n \<and> n \<le> 90) \<or> n = 95 \<or> (97 \<le> n \<and> n \<le> 122))"

definition is_space_char :: "char \<Rightarrow> bool" where
  "is_space_char c = (c = CHR '' '' \<or> c = CHR 0x0A \<or> c = CHR 0x09 \<or> c = CHR 0x0D)"

function c_tokens :: "string \<Rightarrow> string list" where
  "c_tokens [] = []"
| "c_tokens (c # cs) =
     (if is_ident_char c
        then (c # takeWhile is_ident_char cs) # c_tokens (dropWhile is_ident_char cs)
      else if is_space_char c then c_tokens cs
      else [c] # c_tokens cs)"
  by pat_completeness auto
termination
  by (relation "measure length") (auto simp: length_dropWhile_le less_Suc_eq_le)

text \<open>
  A text that does not end inside an identifier: the tokens of a text that follows it are
  not merged with its own.
\<close>

definition closed_text :: "string \<Rightarrow> bool" where
  "closed_text s = (s = [] \<or> \<not> is_ident_char (last s))"

text \<open>
  The names a text declares: the tokens that stand immediately before an opening
  parenthesis.  The names of a triple are the names that the text of its template declares.
\<close>

fun names_before_paren :: "string list \<Rightarrow> string list" where
  "names_before_paren (a # b # ts) =
     (if b = ''('' then a # names_before_paren (b # ts) else names_before_paren (b # ts))"
| "names_before_paren ts = []"

definition declared_names :: "string \<Rightarrow> string list" where
  "declared_names text = names_before_paren (c_tokens text)"

fun template_names :: "family \<times> granularity \<times> string \<times> string \<Rightarrow> string list" where
  "template_names (f, g, ty, tname) =
     declared_names (declaration_template f (granularity_tag g) ty tname)"

text \<open>How often a name occurs in a text as an identifier.\<close>

definition symbol_occurrences :: "string \<Rightarrow> string \<Rightarrow> nat" where
  "symbol_occurrences doc s = count_list (c_tokens doc) s"

text \<open>The names of the cross product that occur in a text, in the order of the text.\<close>

definition is_api_symbol :: "string \<Rightarrow> bool" where
  "is_api_symbol t = (t \<in> set all_symbols)"

definition api_symbols :: "string \<Rightarrow> string list" where
  "api_symbols doc = filter is_api_symbol (c_tokens doc)"

text \<open>
  The structure of a document: its preprocessor and namespace tokens together with the
  names of the cross product, in the order of the text.  A document is well formed when
  this is the include guard opened, the namespace opened, the names of all declarations,
  the namespace closed (the source repeats its name in a comment) and the guard closed.
\<close>

definition guard_macro :: string where
  "guard_macro = ''LIBRARY_INCLUDE_ROCSHMEM_RMA_X_HPP''"

definition structure_words :: "string list" where
  "structure_words =
     [''#'', ''ifndef'', ''define'', ''endif'', guard_macro, ''namespace'', ''rocshmem'', ''{'', ''}'']"

definition is_structure_token :: "string \<Rightarrow> bool" where
  "is_structure_token t = (t \<in> set structure_words \<or> is_api_symbol t)"

definition structure_tokens :: "string \<Rightarrow> string list" where
  "structure_tokens doc = filter is_structure_token (c_tokens doc)"

definition document_skeleton :: "string list" where
  "document_skeleton =
     [''#'', ''ifndef'', guard_macro, ''#'', ''define'', guard_macro, ''namespace'', ''rocshmem'', ''{''] @
     all_symbols @
     [''}'', ''namespace'', ''rocshmem'', ''#'', ''endif'', guard_macro]"


subsection \<open>Prototypes as the specification writes them\<close>

text \<open>
  A prototype on one line: a non-inlinable device function returning \<^verbatim>\<open>void\<close>, with the
  parameters \<^verbatim>\<open>dest\<close>, \<^verbatim>\<open>source\<close>, \<^verbatim>\<open>nelems\<close> and \<^verbatim>\<open>pe\<close>, after the context handle in
  the context-qualified form.
\<close>

definition parameter_list :: "string \<Rightarrow> string" where
  "parameter_list T = T @ '' *dest, const '' @ T @ '' *source, size_t nelems, int pe''"

definition prototype :: "string \<Rightarrow> string \<Rightarrow> string" where
  "prototype name params = ''__device__ ATTR_NO_INLINE void '' @ name @ ''('' @ params @ '');''"

definition ctx_prototype :: "family \<Rightarrow> granularity \<Rightarrow> string \<Rightarrow> string \<Rightarrow> string" where
  "ctx_prototype f g T TNAME =
     prototype (ctx_symbol f g TNAME) (''rocshmem_ctx_t ctx, '' @ parameter_list T)"

definition default_prototype :: "family \<Rightarrow> granularity \<Rightarrow> string \<Rightarrow> string \<Rightarrow> string" where
  "default_prototype f g T TNAME = prototype (default_symbol f g TNAME) (parameter_list T)"

subsection \<open>Concrete inputs\<close>

text \<open>
  A file system with no files, and an operating system on which \<^verbatim>\<open>write\<close> raises one error
  and the \<^verbatim>\<open>close\<close> that follows raises another.
\<close>

definition empty_disk :: os_state where
  "empty_disk = \<lparr>files = Map.empty, open_files = [], calls = []\<rparr>"

definition write_and_close_fail :: os_faults where
  "write_and_close_fail =
     \<lparr>open_fault = (\<lambda>_. None),
      write_fault = (\<lambda>_ _. Some (OSError ''No space left on device'', 0)),
      close_fault = (\<lambda>_ _. Some (OSError ''Input/output error'', 0))\<rparr>"

section \<open>Properties\<close>

subsection \<open>The four templates are one template\<close>

text \<open>
  C10.  For every granularity tag, type spelling and short name, the four template
  functions \<open>put_api_x\<close>, \<open>get_api_x\<close>, \<open>put_nbi_api_x\<close> and \<open>get_nbi_api_x\<close> return the
  same text except for the family fragment (\<open>put\<close>, \<open>get\<close>, \<open>put_nbi\<close>, \<open>get_nbi\<close>) inside
  the two symbol names: each is the common template \<open>api_x\<close> at its fragment.
\<close>

theorem templates_differ_only_in_fragment:
  "put_api_x GRAN T TNAME = api_x ''put'' GRAN T TNAME \<and>
   get_api_x GRAN T TNAME = api_x ''get'' GRAN T TNAME \<and>
   put_nbi_api_x GRAN T TNAME = api_x ''put_nbi'' GRAN T TNAME \<and>
   get_nbi_api_x GRAN T TNAME = api_x ''get_nbi'' GRAN T TNAME"
  by (simp add: put_api_x_def get_api_x_def put_nbi_api_x_def get_nbi_api_x_def api_x_def)

subsection \<open>Evaluating the character classes\<close>

lemma is_ident_char_bits:
  "is_ident_char (Char b0 b1 b2 b3 b4 b5 b6 b7) \<longleftrightarrow>
     \<not> b7 \<and> ((\<not> b6 \<and> b5 \<and> b4 \<and> (\<not> b3 \<or> (\<not> b2 \<and> \<not> b1)))
           \<or> (b6 \<and> \<not> b4 \<and> (b0 \<or> b1 \<or> b2 \<or> b3))
           \<or> (b6 \<and> b4 \<and> (\<not> b3 \<or> (\<not> b2 \<and> \<not> (b1 \<and> b0))))
           \<or> (b6 \<and> \<not> b5 \<and> b4 \<and> b3 \<and> b2 \<and> b1 \<and> b0))"
  by (cases b0; cases b1; cases b2; cases b3; cases b4; cases b5; cases b6; cases b7;
      simp add: is_ident_char_def)

lemma is_space_char_bits:
  "is_space_char (Char b0 b1 b2 b3 b4 b5 b6 b7) \<longleftrightarrow>
     \<not> b7 \<and> \<not> b6 \<and> \<not> b4 \<and>
       ((b5 \<and> \<not> b3 \<and> \<not> b2 \<and> \<not> b1 \<and> \<not> b0) \<or>
        (\<not> b5 \<and> b3 \<and> \<not> b2 \<and> b1 \<and> \<not> b0) \<or>
        (\<not> b5 \<and> b3 \<and> \<not> b2 \<and> \<not> b1 \<and> b0) \<or>
        (\<not> b5 \<and> b3 \<and> b2 \<and> \<not> b1 \<and> b0))"
  by (cases b0; cases b1; cases b2; cases b3; cases b4; cases b5; cases b6; cases b7;
      simp add: is_space_char_def)

subsection \<open>Tokens of a concatenation\<close>

lemma takeWhile_append_stop:
  "ys = [] \<or> \<not> P (hd ys) \<Longrightarrow> takeWhile P (xs @ ys) = takeWhile P xs"
  by (induction xs) (auto simp: takeWhile_eq_Nil_iff)

lemma dropWhile_append_stop:
  "ys = [] \<or> \<not> P (hd ys) \<Longrightarrow> dropWhile P (xs @ ys) = dropWhile P xs @ ys"
  by (induction xs) (auto simp: dropWhile_eq_self_iff)

lemma c_tokens_append_right:
  "ys = [] \<or> \<not> is_ident_char (hd ys) \<Longrightarrow> c_tokens (xs @ ys) = c_tokens xs @ c_tokens ys"
proof (induction xs rule: c_tokens.induct)
  case 1
  show ?case by simp
next
  case (2 c cs)
  show ?case
  proof (cases "is_ident_char c")
    case True
    with 2 show ?thesis
      by (simp add: takeWhile_append_stop dropWhile_append_stop)
  next
    case False
    with 2 show ?thesis by simp
  qed
qed

lemma c_tokens_append_left:
  "xs = [] \<or> \<not> is_ident_char (last xs) \<Longrightarrow> c_tokens (xs @ ys) = c_tokens xs @ c_tokens ys"
proof (induction xs rule: c_tokens.induct)
  case 1
  show ?case by simp
next
  case (2 c cs)
  show ?case
  proof (cases "is_ident_char c")
    case True
    with 2(4) have ne: "cs \<noteq> []" and nl: "\<not> is_ident_char (last cs)"
      by (auto split: if_splits)
    then have mem: "last cs \<in> set cs" by simp
    have tw: "takeWhile is_ident_char (cs @ ys) = takeWhile is_ident_char cs"
      using mem nl by (rule takeWhile_append1)
    have dw: "dropWhile is_ident_char (cs @ ys) = dropWhile is_ident_char cs @ ys"
      using mem nl by (rule dropWhile_append1)
    have "last (dropWhile is_ident_char cs) = last cs"
      using mem nl by (rule dropWhile_last)
    with nl have "dropWhile is_ident_char cs = [] \<or>
        \<not> is_ident_char (last (dropWhile is_ident_char cs))" by simp
    with 2(1) True
    have "c_tokens (dropWhile is_ident_char cs @ ys) =
          c_tokens (dropWhile is_ident_char cs) @ c_tokens ys" by simp
    with True tw dw show ?thesis by simp
  next
    case False
    with 2 have "cs = [] \<or> \<not> is_ident_char (last cs)" by (auto split: if_splits)
    with False 2 show ?thesis by simp
  qed
qed

lemma c_tokens_concat:
  "\<forall>l \<in> set ls. l = [] \<or> \<not> is_ident_char (last l) \<Longrightarrow>
     c_tokens (concat ls) = concat (map c_tokens ls)"
  by (induction ls) (simp_all add: c_tokens_append_left)

lemma c_tokens_ident:
  assumes "\<forall>c \<in> set s. is_ident_char c" and "s \<noteq> []"
    and "ys = [] \<or> \<not> is_ident_char (hd ys)"
  shows "c_tokens (s @ ys) = s # c_tokens ys"
proof -
  from assms(2) obtain c cs where s: "s = c # cs" by (cases s) auto
  with assms(1) have c: "is_ident_char c" and cs: "\<forall>x \<in> set cs. is_ident_char x" by auto
  have "takeWhile is_ident_char (cs @ ys) = cs"
    using cs assms(3) by (simp add: takeWhile_eq_Nil_iff)
  moreover have "dropWhile is_ident_char (cs @ ys) = ys"
    using cs assms(3) by (simp add: dropWhile_eq_self_iff)
  ultimately show ?thesis using c s by simp
qed

subsection \<open>The loops\<close>

lemma foldl_append_concat:
  "foldl (\<lambda>acc (a, b). acc @ f a b) init xs = init @ concat (map (\<lambda>(a, b). f a b) xs)"
  by (induction xs arbitrary: init) (auto)

lemma c_tokens_word:
  assumes "\<forall>c \<in> set s. is_ident_char c" and "s \<noteq> []"
  shows "c_tokens s = [s]"
  using c_tokens_ident [OF assms, of "[]"] by simp

subsection \<open>Tokens of a declaration\<close>

lemma api_x_tokens:
  assumes N: "\<forall>c \<in> set N. is_ident_char c" and F: "\<forall>c \<in> set F. is_ident_char c"
    and G: "\<forall>c \<in> set G. is_ident_char c"
  shows "c_tokens (api_x F G T N) =
     [''__device__'', ''ATTR_NO_INLINE'', ''void'',
      ''rocshmem_ctx_'' @ N @ ''_'' @ F @ ''_'' @ G, ''('',
      ''rocshmem_ctx_t'', ''ctx'', '',''] @ c_tokens T @
     [''*'', ''dest'', '','', ''const''] @ c_tokens T @
     [''*'', ''source'', '','', ''size_t'', ''nelems'', '','', ''int'', ''pe'', '')'', '';'',
      ''__device__'', ''ATTR_NO_INLINE'', ''void'',
      ''rocshmem_'' @ N @ ''_'' @ F @ ''_'' @ G, ''(''] @ c_tokens T @
     [''*'', ''dest'', '','', ''const''] @ c_tokens T @
     [''*'', ''source'', '','', ''size_t'', ''nelems'', '','', ''int'', ''pe'', '')'', '';'']"
  using N F G
  by (simp add: api_x_def c_tokens_append_right is_ident_char_bits is_space_char_bits
        takeWhile_eq_Nil_iff dropWhile_eq_self_iff)

lemma default_prototype_tokens:
  assumes n: "\<forall>c \<in> set name. is_ident_char c" and ne: "name \<noteq> []"
  shows "c_tokens (prototype name (parameter_list T)) =
     [''__device__'', ''ATTR_NO_INLINE'', ''void'', name, ''(''] @ c_tokens T @
     [''*'', ''dest'', '','', ''const''] @ c_tokens T @
     [''*'', ''source'', '','', ''size_t'', ''nelems'', '','', ''int'', ''pe'', '')'', '';'']"
  using n ne
  by (simp add: prototype_def parameter_list_def c_tokens_append_right c_tokens_word
        is_ident_char_bits is_space_char_bits takeWhile_eq_Nil_iff dropWhile_eq_self_iff)

lemma ctx_prototype_tokens:
  assumes n: "\<forall>c \<in> set name. is_ident_char c" and ne: "name \<noteq> []"
  shows "c_tokens (prototype name (''rocshmem_ctx_t ctx, '' @ parameter_list T)) =
     [''__device__'', ''ATTR_NO_INLINE'', ''void'', name, ''('',
      ''rocshmem_ctx_t'', ''ctx'', '',''] @ c_tokens T @
     [''*'', ''dest'', '','', ''const''] @ c_tokens T @
     [''*'', ''source'', '','', ''size_t'', ''nelems'', '','', ''int'', ''pe'', '')'', '';'']"
  using n ne
  by (simp add: prototype_def parameter_list_def c_tokens_append_right c_tokens_word
        is_ident_char_bits is_space_char_bits takeWhile_eq_Nil_iff dropWhile_eq_self_iff)

subsection \<open>The axes\<close>

lemma fragment_ident: "\<forall>c \<in> set (family_fragment f). is_ident_char c"
  by (cases f) (simp_all add: is_ident_char_bits)

lemma tag_ident: "\<forall>c \<in> set (granularity_tag g). is_ident_char c"
  by (cases g) (simp_all add: is_ident_char_bits)

lemma short_name_ident:
  "(T, N) \<in> set types \<Longrightarrow> \<forall>c \<in> set N. is_ident_char c"
  by (auto simp: types_def is_ident_char_bits)

lemma short_name_plain:
  "(T, N) \<in> set types \<Longrightarrow> CHR ''_'' \<notin> set N \<and> N \<noteq> ''ctx''"
  by (auto simp: types_def)

lemma short_name_unique:
  "(T, N) \<in> set types \<Longrightarrow> (T', N) \<in> set types \<Longrightarrow> T = T'"
  by (auto simp: types_def)

lemma set_triples:
  "(f, g, T, N) \<in> set triples \<longleftrightarrow> (T, N) \<in> set types"
proof -
  have "f \<in> set families" by (cases f) (simp_all add: families_def)
  moreover have "g \<in> set granularities" by (cases g) (simp_all add: granularities_def)
  ultimately show ?thesis by (simp add: triples_def)
qed

lemma ctx_symbol_ident:
  "(T, N) \<in> set types \<Longrightarrow> \<forall>c \<in> set (ctx_symbol f g N). is_ident_char c"
  using short_name_ident [of T N] fragment_ident [of f] tag_ident [of g]
  by (auto simp: ctx_symbol_def is_ident_char_bits)

lemma default_symbol_ident:
  "(T, N) \<in> set types \<Longrightarrow> \<forall>c \<in> set (default_symbol f g N). is_ident_char c"
  using short_name_ident [of T N] fragment_ident [of f] tag_ident [of g]
  by (auto simp: default_symbol_def is_ident_char_bits)

lemma template_api_x:
  "declaration_template f GRAN T TNAME = api_x (family_fragment f) GRAN T TNAME"
  by (cases f) (simp_all add: put_api_x_def get_api_x_def put_nbi_api_x_def get_nbi_api_x_def api_x_def)

lemma template_tokens:
  assumes "(T, N) \<in> set types"
  shows "c_tokens (declaration_template f (granularity_tag g) T N) =
     [''__device__'', ''ATTR_NO_INLINE'', ''void'', ctx_symbol f g N, ''('',
      ''rocshmem_ctx_t'', ''ctx'', '',''] @ c_tokens T @
     [''*'', ''dest'', '','', ''const''] @ c_tokens T @
     [''*'', ''source'', '','', ''size_t'', ''nelems'', '','', ''int'', ''pe'', '')'', '';'',
      ''__device__'', ''ATTR_NO_INLINE'', ''void'', default_symbol f g N, ''(''] @ c_tokens T @
     [''*'', ''dest'', '','', ''const''] @ c_tokens T @
     [''*'', ''source'', '','', ''size_t'', ''nelems'', '','', ''int'', ''pe'', '')'', '';'']"
  unfolding template_api_x ctx_symbol_def default_symbol_def
  by (rule api_x_tokens) (use assms short_name_ident fragment_ident tag_ident in blast)+

lemma template_prototypes:
  assumes "(T, N) \<in> set types"
  shows "c_tokens (declaration_template f (granularity_tag g) T N) =
     c_tokens (ctx_prototype f g T N) @ c_tokens (default_prototype f g T N)"
proof -
  have c: "ctx_symbol f g N \<noteq> []" and d: "default_symbol f g N \<noteq> []"
    by (simp_all add: ctx_symbol_def default_symbol_def)
  note p1 = ctx_prototype_tokens [OF ctx_symbol_ident [OF assms] c, of T]
  note p2 = default_prototype_tokens [OF default_symbol_ident [OF assms] d, of T]
  show ?thesis
    unfolding ctx_prototype_def default_prototype_def p1 p2 template_tokens [OF assms]
    by (simp only: append_assoc append.simps)
qed

subsection \<open>The names determine the triple\<close>

lemma split_at_first:
  assumes "x \<notin> set xs" and "x \<notin> set xs'" and "xs @ x # ys = xs' @ x # ys'"
  shows "xs = xs' \<and> ys = ys'"
proof -
  have "takeWhile (\<lambda>c. c \<noteq> x) (xs @ x # ys) = xs"
    using assms(1) by (induction xs) auto
  moreover have "takeWhile (\<lambda>c. c \<noteq> x) (xs' @ x # ys') = xs'"
    using assms(2) by (induction xs') auto
  ultimately have "xs = xs'" using assms(3) by simp
  with assms(3) show ?thesis by simp
qed

lemma fragment_tag_inj:
  "family_fragment f @ CHR ''_'' # granularity_tag g =
     family_fragment f' @ CHR ''_'' # granularity_tag g' \<Longrightarrow> f = f' \<and> g = g'"
  by (cases f; cases f'; cases g; cases g'; simp)

lemma ctx_symbol_inj:
  assumes "CHR ''_'' \<notin> set N" and "CHR ''_'' \<notin> set N'"
    and "ctx_symbol f g N = ctx_symbol f' g' N'"
  shows "N = N' \<and> f = f' \<and> g = g'"
proof -
  from assms(3) have "N @ CHR ''_'' # (family_fragment f @ ''_'' @ granularity_tag g) =
      N' @ CHR ''_'' # (family_fragment f' @ ''_'' @ granularity_tag g')"
    by (simp add: ctx_symbol_def)
  from split_at_first [OF assms(1,2) this] show ?thesis
    by (auto dest: fragment_tag_inj)
qed

lemma default_symbol_inj:
  assumes "CHR ''_'' \<notin> set N" and "CHR ''_'' \<notin> set N'"
    and "default_symbol f g N = default_symbol f' g' N'"
  shows "N = N' \<and> f = f' \<and> g = g'"
proof -
  from assms(3) have "N @ CHR ''_'' # (family_fragment f @ ''_'' @ granularity_tag g) =
      N' @ CHR ''_'' # (family_fragment f' @ ''_'' @ granularity_tag g')"
    by (simp add: default_symbol_def)
  from split_at_first [OF assms(1,2) this] show ?thesis
    by (auto dest: fragment_tag_inj)
qed

lemma ctx_default_distinct:
  assumes "CHR ''_'' \<notin> set N'" and "N' \<noteq> ''ctx''"
  shows "ctx_symbol f g N \<noteq> default_symbol f' g' N'"
proof
  assume "ctx_symbol f g N = default_symbol f' g' N'"
  then have "''ctx'' @ CHR ''_'' # (N @ ''_'' @ family_fragment f @ ''_'' @ granularity_tag g) =
      N' @ CHR ''_'' # (family_fragment f' @ ''_'' @ granularity_tag g')"
    by (simp add: ctx_symbol_def default_symbol_def)
  from split_at_first [OF _ assms(1) this] have "''ctx'' = N'" by simp
  with assms(2) show False by simp
qed

lemma triple_names_inj:
  assumes k: "k \<in> set triples" and k': "k' \<in> set triples"
    and eq: "fst (symbol_names k) = fst (symbol_names k') \<or> snd (symbol_names k) = snd (symbol_names k')"
  shows "k = k'"
proof -
  obtain f g T N where K: "k = (f, g, T, N)" by (cases k) auto
  obtain f' g' T' N' where K': "k' = (f', g', T', N')" by (cases k') auto
  from k K have t: "(T, N) \<in> set types" by (simp add: set_triples)
  from k' K' have t': "(T', N') \<in> set types" by (simp add: set_triples)
  from short_name_plain [OF t] have u: "CHR ''_'' \<notin> set N" by simp
  from short_name_plain [OF t'] have u': "CHR ''_'' \<notin> set N'" by simp
  from eq K K' have "N = N' \<and> f = f' \<and> g = g'"
    using ctx_symbol_inj [OF u u'] default_symbol_inj [OF u u'] by auto
  moreover from this t t' have "T = T'" by (auto dest: short_name_unique)
  ultimately show ?thesis using K K' by simp
qed

lemma triple_names_cross:
  assumes k: "k \<in> set triples" and k': "k' \<in> set triples"
  shows "fst (symbol_names k) \<noteq> snd (symbol_names k')"
proof -
  obtain f g T N where K: "k = (f, g, T, N)" by (cases k) auto
  obtain f' g' T' N' where K': "k' = (f', g', T', N')" by (cases k') auto
  from k' K' have t': "(T', N') \<in> set types" by (simp add: set_triples)
  from short_name_plain [OF t'] K K' show ?thesis
    by (simp add: ctx_default_distinct)
qed

subsection \<open>The table of names\<close>

lemma distinct_types: "distinct types"
  by (simp add: types_def)

lemma distinct_triples: "distinct triples"
  unfolding triples_def
  by (intro distinct_product distinct_types) (simp_all add: families_def granularities_def)

lemma length_triples: "length triples = 104"
  by (simp add: triples_def families_def granularities_def types_def)

lemma distinct_name_pairs:
  assumes "distinct ks"
    and "\<And>k k'. k \<in> set ks \<Longrightarrow> k' \<in> set ks \<Longrightarrow> a k = a k' \<or> b k = b k' \<Longrightarrow> k = k'"
    and "\<And>k k'. k \<in> set ks \<Longrightarrow> k' \<in> set ks \<Longrightarrow> a k \<noteq> b k'"
  shows "distinct (concat (map (\<lambda>k. [a k, b k]) ks))"
  using assms
proof (induction ks)
  case Nil
  show ?case by simp
next
  case (Cons k ks)
  have "distinct (concat (map (\<lambda>k. [a k, b k]) ks))"
    using Cons.prems by (intro Cons.IH) auto
  moreover have "a k \<noteq> b k" using Cons.prems(3) by simp
  moreover have notin: "k \<notin> set ks" using Cons.prems(1) by simp
  moreover have "a k \<notin> set (concat (map (\<lambda>k. [a k, b k]) ks))"
  proof
    assume "a k \<in> set (concat (map (\<lambda>k. [a k, b k]) ks))"
    then obtain k' where "k' \<in> set ks" and "a k = a k' \<or> a k = b k'" by auto
    then show False using Cons.prems(2) [of k k'] Cons.prems(3) [of k k'] notin by auto
  qed
  moreover have "b k \<notin> set (concat (map (\<lambda>k. [a k, b k]) ks))"
  proof
    assume "b k \<in> set (concat (map (\<lambda>k. [a k, b k]) ks))"
    then obtain k' where "k' \<in> set ks" and "b k = a k' \<or> b k = b k'" by auto
    then show False using Cons.prems(2) [of k k'] Cons.prems(3) [of k' k] notin by auto
  qed
  ultimately show ?case by simp
qed

lemma distinct_all_symbols: "distinct all_symbols"
  unfolding all_symbols_def
  by (rule distinct_name_pairs [OF distinct_triples])
     (auto dest: triple_names_inj triple_names_cross)

lemma length_name_pairs: "length (concat (map (\<lambda>k. [a k, b k]) ks)) = 2 * length ks"
  by (induction ks) simp_all

lemma length_all_symbols: "length all_symbols = 208"
  by (simp add: all_symbols_def length_name_pairs length_triples)

lemma set_all_symbols:
  "set all_symbols = (\<Union>k \<in> set triples. {fst (symbol_names k), snd (symbol_names k)})"
  by (auto simp: all_symbols_def)

lemma api_symbol_ctx: "(T, N) \<in> set types \<Longrightarrow> is_api_symbol (ctx_symbol f g N)"
  unfolding is_api_symbol_def set_all_symbols
  using set_triples [of f g T N] by force

lemma api_symbol_default: "(T, N) \<in> set types \<Longrightarrow> is_api_symbol (default_symbol f g N)"
  unfolding is_api_symbol_def set_all_symbols
  using set_triples [of f g T N] by force

subsection \<open>The two prototypes of a declaration\<close>

text \<open>
  C2.  For every triple of the cross product the template emits exactly two prototypes,
  read as C tokens: the context-qualified one, a non-inlinable device function returning
  \<^verbatim>\<open>void\<close> named \<^verbatim>\<open>rocshmem_ctx_<shortName>_<fragment>_<tag>\<close> with the parameters
  \<^verbatim>\<open>rocshmem_ctx_t ctx, T *dest, const T *source, size_t nelems, int pe\<close>, and then the
  default-context one named \<^verbatim>\<open>rocshmem_<shortName>_<fragment>_<tag>\<close> with the same list
  minus the context handle, each ended by a semicolon.  The source breaks the lines of a
  prototype after the opening parenthesis and, in the first, after \<^verbatim>\<open>source,\<close>; the text
  for \<^verbatim>\<open>int\<close>, Put and per-wave is given with its layout and has the tokens of the two
  prototypes \<^verbatim>\<open>rocshmem_ctx_int_put_wave(...)\<close> and \<^verbatim>\<open>rocshmem_int_put_wave(...)\<close>.
\<close>

theorem declaration_template_prototypes:
  "(\<forall>(f, g, T, TNAME) \<in> set triples.
      c_tokens (declaration_template f (granularity_tag g) T TNAME) =
        c_tokens (ctx_prototype f g T TNAME) @ c_tokens (default_prototype f g T TNAME)) \<and>
   put_api_x ''wave'' ''int'' ''int'' =
     ''__device__ ATTR_NO_INLINE void rocshmem_ctx_int_put_wave(\<newline>'' @
     ''    rocshmem_ctx_t ctx, int *dest, const int *source,\<newline>'' @
     ''    size_t nelems, int pe);\<newline>'' @
     ''__device__ ATTR_NO_INLINE void rocshmem_int_put_wave(\<newline>'' @
     ''    int *dest, const int *source, size_t nelems, int pe);\<newline>\<newline>'' \<and>
   c_tokens (put_api_x ''wave'' ''int'' ''int'') =
     c_tokens (''__device__ ATTR_NO_INLINE void '' @
               ''rocshmem_ctx_int_put_wave(rocshmem_ctx_t ctx, int *dest, const int *source, size_t nelems, int pe)'' @
               '';'') @
     c_tokens (''__device__ ATTR_NO_INLINE void '' @
               ''rocshmem_int_put_wave(int *dest, const int *source, size_t nelems, int pe)'' @
               '';'')"
proof (intro conjI)
  show "\<forall>(f, g, T, TNAME) \<in> set triples.
      c_tokens (declaration_template f (granularity_tag g) T TNAME) =
        c_tokens (ctx_prototype f g T TNAME) @ c_tokens (default_prototype f g T TNAME)"
    by (auto simp: set_triples intro: template_prototypes)
  show "put_api_x ''wave'' ''int'' ''int'' =
     ''__device__ ATTR_NO_INLINE void rocshmem_ctx_int_put_wave(\<newline>'' @
     ''    rocshmem_ctx_t ctx, int *dest, const int *source,\<newline>'' @
     ''    size_t nelems, int pe);\<newline>'' @
     ''__device__ ATTR_NO_INLINE void rocshmem_int_put_wave(\<newline>'' @
     ''    int *dest, const int *source, size_t nelems, int pe);\<newline>\<newline>''"
    by (simp add: put_api_x_def)
  have m: "(''int'', ''int'') \<in> set types" by (simp add: types_def)
  have a: "ctx_prototype Put PerWave ''int'' ''int'' =
      ''__device__ ATTR_NO_INLINE void '' @
      ''rocshmem_ctx_int_put_wave(rocshmem_ctx_t ctx, int *dest, const int *source, size_t nelems, int pe)'' @
      '';''"
    by (simp add: ctx_prototype_def prototype_def parameter_list_def ctx_symbol_def)
  have b: "default_prototype Put PerWave ''int'' ''int'' =
      ''__device__ ATTR_NO_INLINE void '' @
      ''rocshmem_int_put_wave(int *dest, const int *source, size_t nelems, int pe)'' @
      '';''"
    by (simp add: default_prototype_def prototype_def parameter_list_def default_symbol_def)
  from template_prototypes [OF m, of Put PerWave]
  show "c_tokens (put_api_x ''wave'' ''int'' ''int'') =
     c_tokens (''__device__ ATTR_NO_INLINE void '' @
               ''rocshmem_ctx_int_put_wave(rocshmem_ctx_t ctx, int *dest, const int *source, size_t nelems, int pe)'' @
               '';'') @
     c_tokens (''__device__ ATTR_NO_INLINE void '' @
               ''rocshmem_int_put_wave(int *dest, const int *source, size_t nelems, int pe)'' @
               '';'')"
    by (simp only: a b declaration_template.simps granularity_tag.simps)
qed

theorem declaration_template_prototypes_witness:
  "(GetNonBlocking, PerWorkgroup, ''unsigned long'', ''ulong'') \<in> set triples \<and>
   c_tokens (get_nbi_api_x ''wg'' ''unsigned long'' ''ulong'') =
     c_tokens (ctx_prototype GetNonBlocking PerWorkgroup ''unsigned long'' ''ulong'') @
     c_tokens (default_prototype GetNonBlocking PerWorkgroup ''unsigned long'' ''ulong'')"
proof -
  have m: "(GetNonBlocking, PerWorkgroup, ''unsigned long'', ''ulong'') \<in> set triples"
    by (simp add: triples_def families_def granularities_def types_def)
  from declaration_template_prototypes
  have "\<forall>(f, g, T, TNAME) \<in> set triples.
      c_tokens (declaration_template f (granularity_tag g) T TNAME) =
        c_tokens (ctx_prototype f g T TNAME) @ c_tokens (default_prototype f g T TNAME)"
    by (rule conjunct1)
  from bspec [OF this m] m show ?thesis
    by (simp only: prod.case declaration_template.simps granularity_tag.simps simp_thms)
qed

subsection \<open>The names a template declares\<close>

lemma names_before_paren_none:
  "''('' \<notin> set (tl ws) \<Longrightarrow> names_before_paren ws = []"
  by (induction ws rule: names_before_paren.induct) auto

lemma names_before_paren_segment:
  "ws \<noteq> [] \<Longrightarrow> ''('' \<notin> set (tl ws) \<Longrightarrow>
     names_before_paren (ws @ ''('' # rest) = last ws # names_before_paren (''('' # rest)"
  by (induction ws rule: names_before_paren.induct) auto

lemma type_tokens_no_paren: "(T, N) \<in> set types \<Longrightarrow> ''('' \<notin> set (c_tokens T)"
  by (auto simp: types_def is_ident_char_bits is_space_char_bits)

lemma template_declared_names:
  assumes "(T, N) \<in> set types"
  shows "declared_names (declaration_template f (granularity_tag g) T N) =
           [ctx_symbol f g N, default_symbol f g N]"
proof -
  define A where "A = [''__device__'', ''ATTR_NO_INLINE'', ''void'', ctx_symbol f g N]"
  define B where "B = ''('' # [''rocshmem_ctx_t'', ''ctx'', '',''] @ c_tokens T @
     [''*'', ''dest'', '','', ''const''] @ c_tokens T @
     [''*'', ''source'', '','', ''size_t'', ''nelems'', '','', ''int'', ''pe'', '')'', '';'',
      ''__device__'', ''ATTR_NO_INLINE'', ''void'', default_symbol f g N]"
  define C where "C = c_tokens T @ [''*'', ''dest'', '','', ''const''] @ c_tokens T @
     [''*'', ''source'', '','', ''size_t'', ''nelems'', '','', ''int'', ''pe'', '')'', '';'']"
  have p: "''('' \<notin> set (c_tokens T)" by (rule type_tokens_no_paren [OF assms])
  have n: "ctx_symbol f g N \<noteq> ''(''" "default_symbol f g N \<noteq> ''(''"
    by (simp_all add: ctx_symbol_def default_symbol_def)
  have tok: "c_tokens (declaration_template f (granularity_tag g) T N) = A @ B @ ''('' # C"
    by (simp add: template_tokens [OF assms] A_def B_def C_def)
  have a: "A \<noteq> []" "''('' \<notin> set (tl A)" "last A = ctx_symbol f g N"
    using n by (auto simp: A_def)
  have b: "B \<noteq> []" "''('' \<notin> set (tl B)" "last B = default_symbol f g N"
    using n p by (auto simp: B_def)
  have c: "''('' \<notin> set (tl (''('' # C))"
    using p by (auto simp: C_def)
  have "names_before_paren (A @ B @ ''('' # C) =
      ctx_symbol f g N # names_before_paren (B @ ''('' # C)"
    using names_before_paren_segment [OF a(1,2), of "tl B @ ''('' # C"] a(3)
    by (simp add: B_def)
  moreover have "names_before_paren (B @ ''('' # C) =
      default_symbol f g N # names_before_paren (''('' # C)"
    using names_before_paren_segment [OF b(1,2), of C] b(3) by simp
  moreover have "names_before_paren (''('' # C) = []"
    by (rule names_before_paren_none [OF c])
  ultimately show ?thesis
    by (simp add: declared_names_def tok)
qed

lemma template_names_pattern:
  "k \<in> set triples \<Longrightarrow> template_names k = [fst (symbol_names k), snd (symbol_names k)]"
  by (cases k) (simp add: set_triples template_declared_names)

subsection \<open>Naming is injective\<close>

text \<open>
  C3.  The naming is injective over the cross product.  The names of a triple are read
  off the text of its template: the two identifiers that stand before the opening
  parentheses, the context-qualified name and the default-context name.  Two triples of
  families, granularities and table entries whose templates declare the same pair of names
  are the same triple, and the pair is the one the naming pattern
  \<^verbatim>\<open>rocshmem_ctx_<shortName>_<fragment>_<tag>\<close>, \<^verbatim>\<open>rocshmem_<shortName>_<fragment>_<tag>\<close> gives.
\<close>

theorem template_names_injective:
  "(\<forall>k \<in> set triples. \<forall>k' \<in> set triples. template_names k = template_names k' \<longrightarrow> k = k') \<and>
   (\<forall>k \<in> set triples. template_names k = [fst (symbol_names k), snd (symbol_names k)])"
proof (intro conjI ballI impI)
  fix k k'
  assume k: "k \<in> set triples" and k': "k' \<in> set triples"
    and eq: "template_names k = template_names k'"
  from eq have "fst (symbol_names k) = fst (symbol_names k')"
    by (simp add: template_names_pattern [OF k] template_names_pattern [OF k'])
  then show "k = k'" using triple_names_inj [OF k k'] by simp
next
  fix k assume "k \<in> set triples"
  then show "template_names k = [fst (symbol_names k), snd (symbol_names k)]"
    by (rule template_names_pattern)
qed

theorem template_names_injective_witness:
  "(Put, PerWave, ''long'', ''long'') \<in> set triples \<and>
   (PutNonBlocking, PerWave, ''long long'', ''longlong'') \<in> set triples \<and>
   template_names (Put, PerWave, ''long'', ''long'') =
     [''rocshmem_ctx_long_put_wave'', ''rocshmem_long_put_wave''] \<and>
   template_names (PutNonBlocking, PerWave, ''long long'', ''longlong'') =
     [''rocshmem_ctx_longlong_put_nbi_wave'', ''rocshmem_longlong_put_nbi_wave''] \<and>
   template_names (Put, PerWave, ''long'', ''long'') \<noteq>
     template_names (PutNonBlocking, PerWave, ''long long'', ''longlong'')"
proof -
  have m: "(Put, PerWave, ''long'', ''long'') \<in> set triples"
    and m': "(PutNonBlocking, PerWave, ''long long'', ''longlong'') \<in> set triples"
    by (simp_all add: triples_def families_def granularities_def types_def)
  note t = template_names_injective
  from conjunct2 [OF t, THEN bspec, OF m] have a: "template_names (Put, PerWave, ''long'', ''long'') =
      [''rocshmem_ctx_long_put_wave'', ''rocshmem_long_put_wave'']"
    by (simp add: ctx_symbol_def default_symbol_def)
  from conjunct2 [OF t, THEN bspec, OF m'] have b: "template_names (PutNonBlocking, PerWave, ''long long'', ''longlong'') =
      [''rocshmem_ctx_longlong_put_nbi_wave'', ''rocshmem_longlong_put_nbi_wave'']"
    by (simp add: ctx_symbol_def default_symbol_def)
  from conjunct1 [OF t, THEN bspec, OF m, THEN bspec, OF m']
  have "template_names (Put, PerWave, ''long'', ''long'') \<noteq>
        template_names (PutNonBlocking, PerWave, ''long long'', ''longlong'')"
    by auto
  with m m' a b show ?thesis by (simp only: simp_thms)
qed

subsection \<open>Emission\<close>

lemma disk_append_written:
  "disk_append p text (fs(p \<mapsto> old)) = fs(p \<mapsto> old @ text)"
  by (simp add: disk_append_def)

lemma disk_append_twice:
  "disk_append p b (disk_append p a fs) = disk_append p (a @ b) fs"
  by (simp add: disk_append_def)

lemma write_to_file_cases:
  "write_to_file os p doc s =
     (case open_fault os p of
        Some e \<Rightarrow> (Inl e, s\<lparr>calls := calls s @ [Open p]\<rparr>)
      | None \<Rightarrow>
          (case write_fault os p doc of
             Some (e, k) \<Rightarrow>
               (case close_fault os p [] of
                  Some (e', k') \<Rightarrow>
                    (Inl e', s\<lparr>files := (files s)(p \<mapsto> take k doc),
                              calls := calls s @ [Open p, Write p doc, Close p]\<rparr>)
                | None \<Rightarrow>
                    (Inl e, s\<lparr>files := (files s)(p \<mapsto> take k doc),
                             calls := calls s @ [Open p, Write p doc, Close p]\<rparr>))
           | None \<Rightarrow>
               (case close_fault os p doc of
                  Some (e', k') \<Rightarrow>
                    (Inl e', s\<lparr>files := (files s)(p \<mapsto> take k' doc),
                              calls := calls s @ [Open p, Write p doc, Close p]\<rparr>)
                | None \<Rightarrow>
                    (Inr (), s\<lparr>files := (files s)(p \<mapsto> doc),
                               calls := calls s @ [Open p, Write p doc, Close p]\<rparr>))))"
  by (simp add: write_to_file_def os_open_w_def os_write_def os_close_def Let_def
        disk_append_written disk_append_twice
        split: option.splits prod.splits)

text \<open>
  C9 as stated fails when \<^verbatim>\<open>write\<close> raises and the \<^verbatim>\<open>close\<close> that leaves the
  \<^verbatim>\<open>with\<close> block raises as well: the caller receives the error of \<^verbatim>\<open>close\<close>, not the
  error that was raised while writing.
\<close>

theorem write_error_replaced_by_close_error:
  "write_fault write_and_close_fail (os_path_join ''out'' ''rocshmem_RMA_X.hpp'')
     (expanded_code_of []) = Some (OSError ''No space left on device'', 0) \<and>
   fst (generate_RMA_X_header write_and_close_fail ''out'' [] empty_disk) =
     Inl (OSError ''Input/output error'') \<and>
   fst (generate_RMA_X_header write_and_close_fail ''out'' [] empty_disk) \<noteq>
     Inl (OSError ''No space left on device'')"
  by (simp add: generate_RMA_X_header_def Let_def write_to_file_cases write_and_close_fail_def)

text \<open>
  C9, amended.  The emitter makes one \<^verbatim>\<open>open\<close>, at most one \<^verbatim>\<open>write\<close> and one \<^verbatim>\<open>close\<close>, on
  the output directory joined with the fixed file name \<^verbatim>\<open>rocshmem_RMA_X.hpp\<close>.  When none
  of them raises, the file holds exactly the document, whatever it held before, because
  opening truncates it.  An error of \<^verbatim>\<open>open\<close> reaches the caller as raised, with nothing
  written.  An error of \<^verbatim>\<open>write\<close> reaches the caller as raised unless the \<^verbatim>\<open>close\<close> on
  leaving the block raises too; an error of \<^verbatim>\<open>close\<close> always reaches the caller as raised.
  After an error the file keeps the characters that reached it: there is no retry and no
  cleanup.  On every path the open handles are the ones from before the call.
\<close>

theorem emitter_outcomes:
  "generate_RMA_X_header os output_dir copyright s =
     (let p = os_path_join output_dir ''rocshmem_RMA_X.hpp''; doc = expanded_code_of copyright
      in case open_fault os p of
           Some e \<Rightarrow> (Inl e, s\<lparr>calls := calls s @ [Open p]\<rparr>)
         | None \<Rightarrow>
             (case write_fault os p doc of
                Some (e, k) \<Rightarrow>
                  (case close_fault os p [] of
                     Some (e', k') \<Rightarrow>
                       (Inl e', s\<lparr>files := (files s)(p \<mapsto> take k doc),
                                 calls := calls s @ [Open p, Write p doc, Close p]\<rparr>)
                   | None \<Rightarrow>
                       (Inl e, s\<lparr>files := (files s)(p \<mapsto> take k doc),
                                calls := calls s @ [Open p, Write p doc, Close p]\<rparr>))
              | None \<Rightarrow>
                  (case close_fault os p doc of
                     Some (e', k') \<Rightarrow>
                       (Inl e', s\<lparr>files := (files s)(p \<mapsto> take k' doc),
                                 calls := calls s @ [Open p, Write p doc, Close p]\<rparr>)
                   | None \<Rightarrow>
                       (Inr (), s\<lparr>files := (files s)(p \<mapsto> doc),
                                  calls := calls s @ [Open p, Write p doc, Close p]\<rparr>)))) \<and>
   os_path_join ''build/include'' ''rocshmem_RMA_X.hpp'' = ''build/include/rocshmem_RMA_X.hpp'' \<and>
   os_path_join ''build/include/'' ''rocshmem_RMA_X.hpp'' = ''build/include/rocshmem_RMA_X.hpp''"
  by (simp add: generate_RMA_X_header_def Let_def write_to_file_cases os_path_join_def)

subsection \<open>The shape of a family block and of the document\<close>

lemma family_block_eq:
  "family_block f =
     documentation f PerWave @
     concat (map (\<lambda>(T, N). declaration_template f ''wave'' T N) types) @
     documentation f PerWorkgroup @
     concat (map (\<lambda>(T, N). declaration_template f ''wg'' T N) types)"
  by (cases f)
     (simp_all add: generate_put_api_x_def generate_get_api_x_def generate_put_nbi_api_x_def
        generate_get_nbi_api_x_def foldl_append_concat documentation_def
        put_doc_wave_def put_doc_wg_def get_doc_wave_def get_doc_wg_def
        put_nbi_doc_wave_def put_nbi_doc_wg_def get_nbi_doc_wave_def get_nbi_doc_wg_def)

lemma expanded_code_eq:
  "expanded_code_of banner =
     banner @ header_open @
     family_block Put @ family_block Get @
     family_block PutNonBlocking @ family_block GetNonBlocking @
     header_close"
  by (simp add: expanded_code_of_def)

subsection \<open>The documentation blocks\<close>

lemma documentation_lengths:
  "length (documentation Put PerWave) = 875" "length (documentation Put PerWorkgroup) = 884"
  "length (documentation Get PerWave) = 784" "length (documentation Get PerWorkgroup) = 794"
  by (simp_all add: documentation_def put_doc_wave_lines_def put_doc_wg_lines_def
        get_doc_wave_lines_def get_doc_wg_lines_def backslash_def)

text \<open>
  C7 as stated fails.  If the two blocks of every family were one template with the
  granularity's phrase substituted, the per-workgroup block would be longer than the
  per-wave block by the same number of characters in every family; it is longer by 9 for
  Put and by 10 for Get.
\<close>

theorem documentation_not_phrase_substitution:
  "\<not> (\<exists>phrase :: granularity \<Rightarrow> string. \<forall>f. \<exists>pre post.
         documentation f PerWave = pre @ phrase PerWave @ post \<and>
         documentation f PerWorkgroup = pre @ phrase PerWorkgroup @ post)"
proof
  assume "\<exists>phrase :: granularity \<Rightarrow> string. \<forall>f. \<exists>pre post.
         documentation f PerWave = pre @ phrase PerWave @ post \<and>
         documentation f PerWorkgroup = pre @ phrase PerWorkgroup @ post"
  then obtain phrase :: "granularity \<Rightarrow> string" where
    t: "\<And>f. \<exists>pre post. documentation f PerWave = pre @ phrase PerWave @ post \<and>
         documentation f PerWorkgroup = pre @ phrase PerWorkgroup @ post"
    by blast
  have d: "length (documentation f PerWorkgroup) + length (phrase PerWave) =
           length (documentation f PerWave) + length (phrase PerWorkgroup)" for f
  proof -
    from t [of f] obtain pre post where
      "documentation f PerWave = pre @ phrase PerWave @ post"
      "documentation f PerWorkgroup = pre @ phrase PerWorkgroup @ post" by blast
    then show ?thesis by simp
  qed
  from d [of Put] d [of Get] show False
    by (simp add: documentation_lengths)
qed

text \<open>
  C7, amended.  For each operation family the documentation blocks of the two
  granularities have the same number of lines and are identical line by line outside the
  divergent-control-paths sentence: the brief paragraph before the sentence and the
  parameter and return section after it are the same.  The first line of the sentence ends
  in \<^verbatim>\<open>per-wave\<close> in one block and in \<^verbatim>\<open>per-workgroup\<close> in the other.  Its second line,
  which names the threads that take part, differs between the two blocks in every family.
  Its third line is the same in both blocks of the two non-blocking families and differs
  for Get, where the sentence is wrapped differently; for Put nothing is said about it.
\<close>

theorem documentation_blocks_agree_outside_sentence:
  "length (documentation_lines f PerWave) = length (documentation_lines f PerWorkgroup) \<and>
   take (sentence_start f) (documentation_lines f PerWave) =
     take (sentence_start f) (documentation_lines f PerWorkgroup) \<and>
   drop (sentence_start f + sentence_length f) (documentation_lines f PerWave) =
     drop (sentence_start f + sentence_length f) (documentation_lines f PerWorkgroup) \<and>
   documentation_lines f PerWave ! sentence_start f =
     '' * This function can be called from divergent control paths at per-wave\<newline>'' \<and>
   documentation_lines f PerWorkgroup ! sentence_start f =
     '' * This function can be called from divergent control paths at per-workgroup\<newline>'' \<and>
   documentation_lines f PerWave ! (sentence_start f + 1) \<noteq>
     documentation_lines f PerWorkgroup ! (sentence_start f + 1) \<and>
   documentation_lines Get PerWave ! (sentence_start Get + 2) \<noteq>
     documentation_lines Get PerWorkgroup ! (sentence_start Get + 2) \<and>
   documentation f PerWave = concat (documentation_lines f PerWave) \<and>
   documentation f PerWorkgroup = concat (documentation_lines f PerWorkgroup)"
  by (cases f)
     (simp_all add: documentation_def put_doc_wave_lines_def put_doc_wg_lines_def
        get_doc_wave_lines_def get_doc_wg_lines_def put_nbi_doc_wave_lines_def
        put_nbi_doc_wg_lines_def get_nbi_doc_wave_lines_def get_nbi_doc_wg_lines_def)

subsection \<open>The description of \<^verbatim>\<open>nelems\<close>\<close>

lemma sublist_left: "sublist xs ys \<Longrightarrow> sublist xs (ps @ ys)"
  unfolding sublist_def by (metis append_assoc)

lemma sublist_right: "sublist xs ys \<Longrightarrow> sublist xs (ys @ ss)"
  unfolding sublist_def by (metis append_assoc)

lemma sublist_here: "sublist xs (xs @ ss)"
  unfolding sublist_def by (metis append_Nil)

lemma documentation_in_family_block: "sublist (documentation f g) (family_block f)"
proof (cases g)
  case PerWave
  show ?thesis unfolding family_block_eq PerWave by (rule sublist_here)
next
  case PerWorkgroup
  show ?thesis unfolding family_block_eq PerWorkgroup
    by (rule sublist_left, rule sublist_left, rule sublist_here)
qed

lemma documentation_in_document:
  "sublist (documentation f g) (expanded_code_of banner)"
proof -
  note b = documentation_in_family_block [of f g]
  show ?thesis
  proof (cases f)
    case Put
    from b have "sublist (documentation f g) (family_block Put)" unfolding Put .
    then show ?thesis unfolding expanded_code_eq
      by (intro sublist_left [of _ _ banner] sublist_left [of _ _ header_open] sublist_right)
  next
    case Get
    from b have "sublist (documentation f g) (family_block Get)" unfolding Get .
    then show ?thesis unfolding expanded_code_eq
      by (intro sublist_left [of _ _ banner] sublist_left [of _ _ header_open]
            sublist_left [of _ _ "family_block Put"] sublist_right)
  next
    case PutNonBlocking
    from b have "sublist (documentation f g) (family_block PutNonBlocking)" unfolding PutNonBlocking .
    then show ?thesis unfolding expanded_code_eq
      by (intro sublist_left [of _ _ banner] sublist_left [of _ _ header_open]
            sublist_left [of _ _ "family_block Put"] sublist_left [of _ _ "family_block Get"]
            sublist_right)
  next
    case GetNonBlocking
    from b have "sublist (documentation f g) (family_block GetNonBlocking)" unfolding GetNonBlocking .
    then show ?thesis unfolding expanded_code_eq
      by (intro sublist_left [of _ _ banner] sublist_left [of _ _ header_open]
            sublist_left [of _ _ "family_block Put"] sublist_left [of _ _ "family_block Get"]
            sublist_left [of _ _ "family_block PutNonBlocking"] sublist_right)
  qed
qed

text \<open>
  C8.  What the generated comments say about \<^verbatim>\<open>nelems\<close>.  Every documentation block is
  part of the document, for every banner.  Its \<^verbatim>\<open>nelems\<close> line, eight lines after the start
  of the divergent-control-paths sentence, gives the size in number of elements in the two
  Put blocks and in bytes in the blocks of Get and of both non-blocking families.
\<close>

theorem nelems_described_in_bytes:
  "sublist (documentation f g) (expanded_code_of banner) \<and>
   documentation f g = concat (documentation_lines f g) \<and>
   documentation_lines f g ! (sentence_start f + 8) =
     (if f = Put then '' * @param[in] nelems Size of the transfer in number of elements.\<newline>''
      else '' * @param[in] nelems  Size of the transfer in bytes.\<newline>'')"
proof -
  have "documentation_lines f g ! (sentence_start f + 8) =
     (if f = Put then '' * @param[in] nelems Size of the transfer in number of elements.\<newline>''
      else '' * @param[in] nelems  Size of the transfer in bytes.\<newline>'')"
    by (cases f; cases g)
       (simp_all add: put_doc_wave_lines_def put_doc_wg_lines_def
          get_doc_wave_lines_def get_doc_wg_lines_def put_nbi_doc_wave_lines_def
          put_nbi_doc_wg_lines_def get_nbi_doc_wave_lines_def get_nbi_doc_wg_lines_def)
  with documentation_in_document [of f g banner] show ?thesis
    by (simp add: documentation_def)
qed

subsection \<open>Which tokens belong to the structure\<close>

lemma api_symbol_shape:
  assumes "is_api_symbol t"
  shows "suffix ''_wave'' t \<or> suffix ''_wg'' t"
proof -
  from assms obtain k where
    k: "t = fst (symbol_names k) \<or> t = snd (symbol_names k)"
    by (auto simp: is_api_symbol_def set_all_symbols)
  obtain f g T N where "k = (f, g, T, N)" by (cases k) auto
  with k have t: "t = ctx_symbol f g N \<or> t = default_symbol f g N" by simp
  show ?thesis
  proof (cases g)
    case PerWave
    have "ctx_symbol f PerWave N = (''rocshmem_ctx_'' @ N @ ''_'' @ family_fragment f) @ ''_wave''"
      "default_symbol f PerWave N = (''rocshmem_'' @ N @ ''_'' @ family_fragment f) @ ''_wave''"
      by (simp_all add: ctx_symbol_def default_symbol_def)
    with t PerWave show ?thesis by (metis suffixI)
  next
    case PerWorkgroup
    have "ctx_symbol f PerWorkgroup N = (''rocshmem_ctx_'' @ N @ ''_'' @ family_fragment f) @ ''_wg''"
      "default_symbol f PerWorkgroup N = (''rocshmem_'' @ N @ ''_'' @ family_fragment f) @ ''_wg''"
      by (simp_all add: ctx_symbol_def default_symbol_def)
    with t PerWorkgroup show ?thesis by (metis suffixI)
  qed
qed

lemma structure_token_shape:
  "is_structure_token t \<Longrightarrow> t \<in> set structure_words \<or> suffix ''_wave'' t \<or> suffix ''_wg'' t"
  using api_symbol_shape [of t] by (auto simp: is_structure_token_def)

lemma structure_word_not_symbol: "t \<in> set structure_words \<Longrightarrow> \<not> is_api_symbol t"
  using api_symbol_shape [of t]
  by (auto simp: structure_words_def guard_macro_def suffix_to_prefix)

lemma fixed_words_plain:
  "\<forall>t \<in> set [''__device__'', ''ATTR_NO_INLINE'', ''void'', ''('', ''rocshmem_ctx_t'', ''ctx'',
       '','', ''*'', ''dest'', ''const'', ''source'', ''size_t'', ''nelems'', ''int'', ''pe'',
       '')'', '';'']. \<not> is_structure_token t"
  by (auto dest!: structure_token_shape simp: structure_words_def guard_macro_def suffix_to_prefix)

lemma type_tokens_plain:
  "(T, N) \<in> set types \<Longrightarrow> \<forall>t \<in> set (c_tokens T). \<not> is_structure_token t"
  by (auto dest!: structure_token_shape
        simp: types_def is_ident_char_bits is_space_char_bits
          structure_words_def guard_macro_def suffix_to_prefix)

lemma template_structure:
  assumes "(T, N) \<in> set types"
  shows "structure_tokens (declaration_template f (granularity_tag g) T N) =
           [ctx_symbol f g N, default_symbol f g N]"
proof -
  have T: "filter is_structure_token (c_tokens T) = []"
    using type_tokens_plain [OF assms] by (simp add: filter_empty_conv)
  have s: "is_structure_token (ctx_symbol f g N)" "is_structure_token (default_symbol f g N)"
    using api_symbol_ctx [OF assms] api_symbol_default [OF assms]
    by (simp_all add: is_structure_token_def)
  show ?thesis
    unfolding structure_tokens_def template_tokens [OF assms]
    using fixed_words_plain by (simp add: T s)
qed

subsection \<open>Texts that end outside an identifier\<close>

lemma closed_append: "closed_text a \<Longrightarrow> closed_text b \<Longrightarrow> closed_text (a @ b)"
  by (cases "b = []") (auto simp: closed_text_def)

lemma closed_concat: "\<forall>l \<in> set ls. closed_text l \<Longrightarrow> closed_text (concat ls)"
  by (induction ls) (simp_all add: closed_append, simp add: closed_text_def)

lemma structure_tokens_append:
  "closed_text a \<Longrightarrow> structure_tokens (a @ b) = structure_tokens a @ structure_tokens b"
  by (simp add: structure_tokens_def closed_text_def c_tokens_append_left)

lemma structure_tokens_concat:
  "\<forall>l \<in> set ls. closed_text l \<Longrightarrow>
     structure_tokens (concat ls) = concat (map structure_tokens ls)"
  by (induction ls) (simp_all add: structure_tokens_append, simp add: structure_tokens_def)

lemma plain_line:
  assumes "list_all (\<lambda>t. t \<notin> set structure_words \<and> \<not> suffix ''_wave'' t \<and> \<not> suffix ''_wg'' t)
             (c_tokens l)"
  shows "structure_tokens l = []"
  using assms structure_token_shape
  by (auto simp: structure_tokens_def filter_empty_conv list_all_iff)

subsection \<open>Evaluating the tokens of the literals\<close>

lemmas token_eval =
  c_tokens.simps takeWhile.simps dropWhile.simps is_ident_char_bits is_space_char_bits
  if_True if_False simp_thms list.simps append.simps list.pred_inject
  closed_text_def last.simps list.set insert_iff empty_iff char.inject
  structure_words_def guard_macro_def suffix_to_prefix rev.simps prefix_code backslash_def

lemma documentation_lines_plain:
  "list_all (\<lambda>l. closed_text l \<and>
     list_all (\<lambda>t. t \<notin> set structure_words \<and> \<not> suffix ''_wave'' t \<and> \<not> suffix ''_wg'' t)
       (c_tokens l))
     (documentation_lines f g)"
proof (cases f; cases g)
  show "f = Put \<Longrightarrow> g = PerWave \<Longrightarrow> ?thesis"
    by (simp only: documentation_lines.simps put_doc_wave_lines_def token_eval cong: if_weak_cong)
  show "f = Put \<Longrightarrow> g = PerWorkgroup \<Longrightarrow> ?thesis"
    by (simp only: documentation_lines.simps put_doc_wg_lines_def token_eval cong: if_weak_cong)
  show "f = Get \<Longrightarrow> g = PerWave \<Longrightarrow> ?thesis"
    by (simp only: documentation_lines.simps get_doc_wave_lines_def token_eval cong: if_weak_cong)
  show "f = Get \<Longrightarrow> g = PerWorkgroup \<Longrightarrow> ?thesis"
    by (simp only: documentation_lines.simps get_doc_wg_lines_def token_eval cong: if_weak_cong)
  show "f = PutNonBlocking \<Longrightarrow> g = PerWave \<Longrightarrow> ?thesis"
    by (simp only: documentation_lines.simps put_nbi_doc_wave_lines_def token_eval cong: if_weak_cong)
  show "f = PutNonBlocking \<Longrightarrow> g = PerWorkgroup \<Longrightarrow> ?thesis"
    by (simp only: documentation_lines.simps put_nbi_doc_wg_lines_def token_eval cong: if_weak_cong)
  show "f = GetNonBlocking \<Longrightarrow> g = PerWave \<Longrightarrow> ?thesis"
    by (simp only: documentation_lines.simps get_nbi_doc_wave_lines_def token_eval cong: if_weak_cong)
  show "f = GetNonBlocking \<Longrightarrow> g = PerWorkgroup \<Longrightarrow> ?thesis"
    by (simp only: documentation_lines.simps get_nbi_doc_wg_lines_def token_eval cong: if_weak_cong)
qed

lemma documentation_closed: "closed_text (documentation f g)"
  unfolding documentation_def
  using documentation_lines_plain [of f g] by (intro closed_concat) (simp add: list_all_iff)

lemma documentation_structure: "structure_tokens (documentation f g) = []"
proof -
  have "\<forall>l \<in> set (documentation_lines f g). closed_text l \<and> structure_tokens l = []"
    using documentation_lines_plain [of f g] by (auto simp: list_all_iff intro: plain_line)
  then show ?thesis
    unfolding documentation_def by (simp add: structure_tokens_concat)
qed

lemma header_open_tokens:
  "c_tokens header_open =
     [''#'', ''ifndef'', guard_macro, ''#'', ''define'', guard_macro, ''namespace'', ''rocshmem'', ''{'']"
  by (simp only: header_open_def concat.simps token_eval cong: if_weak_cong)

lemma header_close_tokens:
  "c_tokens header_close =
     [''}'', ''/'', ''/'', ''namespace'', ''rocshmem'',
      ''#'', ''endif'', ''/'', ''/'', guard_macro]"
  by (simp only: header_close_def concat.simps token_eval cong: if_weak_cong)

lemma structure_word: "t \<in> set structure_words \<Longrightarrow> is_structure_token t"
  by (simp add: is_structure_token_def)

lemma slash_plain: "\<not> is_structure_token ''/''"
  by (auto dest!: structure_token_shape simp: structure_words_def guard_macro_def suffix_to_prefix)

lemma header_open_structure:
  "structure_tokens header_open =
     [''#'', ''ifndef'', guard_macro, ''#'', ''define'', guard_macro, ''namespace'', ''rocshmem'', ''{'']"
  unfolding structure_tokens_def header_open_tokens
  by (simp add: structure_word structure_words_def)

lemma header_close_structure:
  "structure_tokens header_close =
     [''}'', ''namespace'', ''rocshmem'', ''#'', ''endif'', guard_macro]"
  unfolding structure_tokens_def header_close_tokens
  by (simp add: structure_word structure_words_def slash_plain)

lemma header_open_starts: "header_open \<noteq> [] \<and> \<not> is_ident_char (hd header_open)"
  by (simp add: header_open_def is_ident_char_bits)

subsection \<open>The structure of the blocks and of the document\<close>

lemma template_closed: "closed_text (declaration_template f G T N)"
  by (simp add: template_api_x api_x_def closed_text_def is_ident_char_bits)

lemma declarations_closed:
  "closed_text (concat (map (\<lambda>(T, N). declaration_template f G T N) types))"
  by (intro closed_concat) (auto simp: template_closed)

lemma declarations_structure:
  "structure_tokens (concat (map (\<lambda>(T, N). declaration_template f (granularity_tag g) T N) types)) =
     concat (map (\<lambda>(T, N). [ctx_symbol f g N, default_symbol f g N]) types)"
proof -
  let ?h = "\<lambda>(T, N). declaration_template f (granularity_tag g) T N"
  have "structure_tokens (concat (map ?h types)) = concat (map structure_tokens (map ?h types))"
    by (rule structure_tokens_concat) (auto simp: template_closed)
  moreover have "map structure_tokens (map ?h types) =
      map (\<lambda>(T, N). [ctx_symbol f g N, default_symbol f g N]) types"
    unfolding map_map by (rule map_cong [OF refl]) (auto simp: template_structure)
  ultimately show ?thesis by (simp only:)
qed

lemma family_block_tags:
  "family_block f =
     documentation f PerWave @
     concat (map (\<lambda>(T, N). declaration_template f (granularity_tag PerWave) T N) types) @
     documentation f PerWorkgroup @
     concat (map (\<lambda>(T, N). declaration_template f (granularity_tag PerWorkgroup) T N) types)"
  by (simp add: family_block_eq)

lemma family_block_closed: "closed_text (family_block f)"
  unfolding family_block_tags
  by (intro closed_append documentation_closed declarations_closed)

lemma family_block_structure:
  "structure_tokens (family_block f) =
     concat (map (\<lambda>g. concat (map (\<lambda>(T, N). [ctx_symbol f g N, default_symbol f g N]) types))
       granularities)"
  unfolding family_block_tags
  by (simp only: structure_tokens_append documentation_closed declarations_closed
        documentation_structure declarations_structure granularities_def
        list.map concat.simps append_Nil append_Nil2)

lemma concat_map_product:
  "concat (map h (List.product xs ys)) = concat (map (\<lambda>x. concat (map (\<lambda>y. h (x, y)) ys)) xs)"
  by (induction xs) (simp_all add: o_def)

lemma all_symbols_nested:
  "all_symbols =
     concat (map (\<lambda>f. concat (map (\<lambda>g.
       concat (map (\<lambda>(T, N). [ctx_symbol f g N, default_symbol f g N]) types))
       granularities)) families)"
proof -
  have "(\<lambda>t. [fst (symbol_names (f, g, t)), snd (symbol_names (f, g, t))]) =
        (\<lambda>(T, N). [ctx_symbol f g N, default_symbol f g N])" for f g
    by (rule ext) (simp split: prod.split)
  then show ?thesis
    by (simp add: all_symbols_def triples_def concat_map_product)
qed

lemma structure_tokens_after:
  "b \<noteq> [] \<and> \<not> is_ident_char (hd b) \<Longrightarrow>
     structure_tokens (a @ b) = structure_tokens a @ structure_tokens b"
  by (simp add: structure_tokens_def c_tokens_append_right)

lemma header_open_closed: "closed_text header_open"
  by (simp add: header_open_def closed_text_def is_ident_char_bits)

lemma document_structure:
  "structure_tokens (expanded_code_of banner) = structure_tokens banner @ document_skeleton"
proof -
  have "header_open @ family_block Put @ family_block Get @ family_block PutNonBlocking @
          family_block GetNonBlocking @ header_close \<noteq> [] \<and>
        \<not> is_ident_char (hd (header_open @ family_block Put @ family_block Get @
          family_block PutNonBlocking @ family_block GetNonBlocking @ header_close))"
    using header_open_starts by simp
  from structure_tokens_after [OF this, of banner]
  have "structure_tokens (expanded_code_of banner) =
      structure_tokens banner @
      structure_tokens (header_open @ family_block Put @ family_block Get @
        family_block PutNonBlocking @ family_block GetNonBlocking @ header_close)"
    by (simp only: expanded_code_eq)
  moreover have "structure_tokens (header_open @ family_block Put @ family_block Get @
        family_block PutNonBlocking @ family_block GetNonBlocking @ header_close) =
      document_skeleton"
    by (simp only: structure_tokens_append header_open_closed family_block_closed
          header_open_structure header_close_structure family_block_structure
          document_skeleton_def all_symbols_nested families_def
          list.map concat.simps append_Nil append_Nil2 append_assoc append.simps)
  ultimately show ?thesis by simp
qed

lemma api_symbols_structure: "api_symbols doc = filter is_api_symbol (structure_tokens doc)"
  by (auto simp: api_symbols_def structure_tokens_def is_structure_token_def intro: filter_cong)

lemma skeleton_symbols: "filter is_api_symbol document_skeleton = all_symbols"
proof -
  have "filter is_api_symbol all_symbols = all_symbols"
    by (simp add: is_api_symbol_def)
  moreover have "\<forall>t \<in> set structure_words. \<not> is_api_symbol t"
    by (simp add: structure_word_not_symbol)
  ultimately show ?thesis
    by (simp add: document_skeleton_def structure_words_def)
qed

lemma document_symbols:
  "api_symbols (expanded_code_of banner) = api_symbols banner @ all_symbols"
  by (simp add: api_symbols_structure document_structure skeleton_symbols)

lemma count_list_filter: "P s \<Longrightarrow> count_list (filter P xs) s = count_list xs s"
  by (induction xs) auto

lemma count_list_distinct: "distinct xs \<Longrightarrow> x \<in> set xs \<Longrightarrow> count_list xs x = 1"
  by (induction xs) auto

lemma document_symbol_occurrences:
  assumes "is_api_symbol s"
  shows "symbol_occurrences (expanded_code_of banner) s = symbol_occurrences banner s + 1"
proof -
  have "symbol_occurrences doc s = count_list (api_symbols doc) s" for doc
    using assms by (simp add: symbol_occurrences_def api_symbols_def count_list_filter)
  moreover have "count_list all_symbols s = 1"
    using assms distinct_all_symbols by (simp add: count_list_distinct is_api_symbol_def)
  ultimately show ?thesis by (simp add: document_symbols)
qed

subsection \<open>The order of the declarations\<close>

text \<open>
  C4.  In the generated document the four family blocks appear in the order Put, Get,
  PutNonBlocking, GetNonBlocking after the banner and the opening lines.  Each family block
  is its per-wave documentation, the per-wave declarations of all 13 types in table order,
  its per-workgroup documentation and the per-workgroup declarations of all 13 types in
  table order, so the granularities do not interleave.  Read as identifiers, the names of
  the cross product occur in the document, after those of the banner, in exactly this
  order: families outermost, per-wave before per-workgroup, types in table order, the
  context-qualified name of a triple before its default-context name.
\<close>

theorem declarations_in_fixed_order:
  "expanded_code_of banner =
     banner @ header_open @
     family_block Put @ family_block Get @
     family_block PutNonBlocking @ family_block GetNonBlocking @
     header_close \<and>
   family_block f =
     documentation f PerWave @
     concat (map (\<lambda>(T, N). declaration_template f ''wave'' T N) types) @
     documentation f PerWorkgroup @
     concat (map (\<lambda>(T, N). declaration_template f ''wg'' T N) types) \<and>
   api_symbols (expanded_code_of banner) =
     api_symbols banner @
     concat (map (\<lambda>f. concat (map (\<lambda>g.
       concat (map (\<lambda>(T, N). [ctx_symbol f g N, default_symbol f g N]) types))
       [PerWave, PerWorkgroup])) [Put, Get, PutNonBlocking, GetNonBlocking])"
proof (intro conjI)
  show "expanded_code_of banner =
     banner @ header_open @
     family_block Put @ family_block Get @
     family_block PutNonBlocking @ family_block GetNonBlocking @
     header_close"
    by (rule expanded_code_eq)
  show "family_block f =
     documentation f PerWave @
     concat (map (\<lambda>(T, N). declaration_template f ''wave'' T N) types) @
     documentation f PerWorkgroup @
     concat (map (\<lambda>(T, N). declaration_template f ''wg'' T N) types)"
    by (rule family_block_eq)
  show "api_symbols (expanded_code_of banner) =
     api_symbols banner @
     concat (map (\<lambda>f. concat (map (\<lambda>g.
       concat (map (\<lambda>(T, N). [ctx_symbol f g N, default_symbol f g N]) types))
       [PerWave, PerWorkgroup])) [Put, Get, PutNonBlocking, GetNonBlocking])"
    using document_symbols [of banner]
    by (simp only: all_symbols_nested families_def granularities_def)
qed

subsection \<open>Every name occurs once\<close>

lemma api_symbols_empty: "api_symbols [] = []"
  by (simp add: api_symbols_def)

lemma int_in_types: "(''int'', ''int'') \<in> set types"
  by (simp add: types_def)

text \<open>
  C1 as stated fails.  The cross product has 4 \<times> 2 \<times> 13 = 104 triples, so the document
  of the empty banner holds 208 names of the cross product, not 416.  And a name that the
  banner itself contains occurs twice in the document.
\<close>

theorem symbol_count_is_208_not_416:
  "length (api_symbols (expanded_code_of [])) = 208 \<and>
   length (api_symbols (expanded_code_of [])) \<noteq> 416 \<and>
   symbol_occurrences (expanded_code_of ''rocshmem_int_put_wave'') ''rocshmem_int_put_wave'' = 2"
proof -
  have "is_api_symbol (default_symbol Put PerWave ''int'')"
    by (rule api_symbol_default [OF int_in_types])
  then have s: "is_api_symbol ''rocshmem_int_put_wave''"
    by (simp add: default_symbol_def)
  have "c_tokens ''rocshmem_int_put_wave'' = [''rocshmem_int_put_wave'']"
    by (rule c_tokens_word) (simp_all add: is_ident_char_bits)
  then have "symbol_occurrences ''rocshmem_int_put_wave'' ''rocshmem_int_put_wave'' = 1"
    by (simp add: symbol_occurrences_def)
  with document_symbol_occurrences [OF s, of "''rocshmem_int_put_wave''"]
  have "symbol_occurrences (expanded_code_of ''rocshmem_int_put_wave'') ''rocshmem_int_put_wave'' = 2"
    by simp
  then show ?thesis
    by (simp add: document_symbols api_symbols_empty length_all_symbols)
qed

text \<open>
  C1, amended.  For every triple of operation family, granularity and table entry, the
  context-qualified name and the default-context name each occur exactly once, as an
  identifier, in the text the generator puts after the banner: in the document they occur
  once more than in the banner, so exactly once when the banner does not contain them.
  The names of the 104 triples are 104 \<times> 2 = 208 names, pairwise distinct, and they are
  the names of the cross product that the document of the empty banner contains.
\<close>

theorem symbols_occur_once:
  "(\<forall>(f, g, T, N) \<in> set triples.
      symbol_occurrences (expanded_code_of banner) (ctx_symbol f g N) =
        symbol_occurrences banner (ctx_symbol f g N) + 1 \<and>
      symbol_occurrences (expanded_code_of banner) (default_symbol f g N) =
        symbol_occurrences banner (default_symbol f g N) + 1) \<and>
   length triples = 104 \<and> length all_symbols = 208 \<and> distinct all_symbols \<and>
   api_symbols (expanded_code_of []) = all_symbols"
proof (intro conjI)
  show "\<forall>(f, g, T, N) \<in> set triples.
      symbol_occurrences (expanded_code_of banner) (ctx_symbol f g N) =
        symbol_occurrences banner (ctx_symbol f g N) + 1 \<and>
      symbol_occurrences (expanded_code_of banner) (default_symbol f g N) =
        symbol_occurrences banner (default_symbol f g N) + 1"
    by (auto simp: set_triples document_symbol_occurrences api_symbol_ctx api_symbol_default)
  show "length triples = 104" by (rule length_triples)
  show "length all_symbols = 208" by (rule length_all_symbols)
  show "distinct all_symbols" by (rule distinct_all_symbols)
  show "api_symbols (expanded_code_of []) = all_symbols"
    by (simp add: document_symbols api_symbols_empty)
qed

theorem symbols_occur_once_witness:
  "(Put, PerWave, ''int'', ''int'') \<in> set triples \<and>
   symbol_occurrences (expanded_code_of []) ''rocshmem_ctx_int_put_wave'' = 1 \<and>
   symbol_occurrences (expanded_code_of []) ''rocshmem_int_put_wave'' = 1"
proof -
  have m: "(Put, PerWave, ''int'', ''int'') \<in> set triples"
    by (simp add: set_triples int_in_types)
  from conjunct1 [OF symbols_occur_once [of "[]"], THEN bspec, OF m] m
  show ?thesis
    by (simp add: symbol_occurrences_def ctx_symbol_def default_symbol_def)
qed

subsection \<open>Include guard and namespace\<close>



end
